theory Spec2Isabelle
  imports Complex_Main "HOL-Library.AList"
begin

section \<open>AprilTagNode.cpp: configuration state\<close>

text \<open>
  The node keeps the detector's tuning fields (\<open>td->nthreads\<close>, ...) and its own
  members. \<open>apriltag.h\<close> is not part of the sources; the tuning fields are taken with
  the types the parameter descriptions give them: a thread count, two floating-point
  factors, a sharpening amount and two flags. Doubles are modelled as reals, C \<open>int\<close>
  as \<open>int\<close> (no arithmetic is done on them, only comparison and copying).
\<close>

record apriltag_detector =
  nthreads :: int
  quad_decimate :: real
  quad_sigma :: real
  refine_edges :: bool
  decode_sharpening :: real
  debug :: bool

text \<open>
  The two \<open>std::unordered_map\<close> members are association lists with unique keys:
  \<open>m[k] = v\<close> is \<open>AList.update k v m\<close>, \<open>m.count(k)\<close> asks whether \<open>map_of m k\<close> is
  defined, \<open>m.at(k)\<close> (here \<open>at_key\<close>, only called after \<open>count\<close> said yes)
  reads it, \<open>m.empty()\<close> is \<open>m = []\<close>.
\<close>

record AprilTagNode =
  td :: apriltag_detector
  tf :: string
  tag_edge_size :: real
  max_hamming :: int
  profile :: bool
  tag_frames :: "(int \<times> string) list"
  tag_sizes :: "(int \<times> real) list"
  z_up :: bool
  enabled :: bool

definition count :: "('k \<times> 'v) list \<Rightarrow> 'k \<Rightarrow> bool" where
  "count m k = (map_of m k \<noteq> None)"

definition at_key :: "('k \<times> 'v) list \<Rightarrow> 'k \<Rightarrow> 'v" where
  "at_key m k = the (map_of m k)"

section \<open>onParameter\<close>

text \<open>
  An \<open>rclcpp::Parameter\<close> is a name with a value. \<open>get_value<T>()\<close> belongs to rclcpp,
  not to this repository: the four instances the node uses (for \<open>int\<close>, \<open>float\<close>,
  \<open>double\<close> and \<open>bool\<close> fields) are taken as given functions on the value type \<open>'v\<close>.
  The node declares each of the ten parameters with a default of the field's type
  (lines 153 to 163); what rclcpp does with a value of another type is rclcpp's and is
  not modelled.
\<close>

record 'v Parameter =
  get_name :: string
  get_parameter_value :: 'v

record 'v get_value =
  get_int :: "'v \<Rightarrow> int"
  get_float :: "'v \<Rightarrow> real"
  get_double :: "'v \<Rightarrow> real"
  get_bool :: "'v \<Rightarrow> bool"

record SetParametersResult =
  successful :: bool

text \<open>
  \<open>assign_check(parameter, N, V)\<close>: when the parameter's name is \<open>N\<close>, store its value
  in \<open>V\<close> and return true. The result is the flag together with the new content of
  \<open>V\<close>.
\<close>

definition assign_check :: "('v \<Rightarrow> 'a) \<Rightarrow> 'v Parameter \<Rightarrow> string \<Rightarrow> 'a \<Rightarrow> bool \<times> 'a" where
  "assign_check get parameter n var =
     (if get_name parameter = n then (True, get (get_parameter_value parameter))
      else (False, var))"

text \<open>
  One iteration of the loop of \<open>onParameter\<close>: the ten \<open>IF(N, V)\<close> lines, each
  \<open>if (assign_check(parameter, N, V)) continue;\<close>, in the order of the source.
\<close>

definition onParameter_body :: "'v get_value \<Rightarrow> 'v Parameter \<Rightarrow> AprilTagNode \<Rightarrow> AprilTagNode" where
  "onParameter_body g parameter s =
    (case assign_check (get_int g) parameter ''detector.threads'' (nthreads (td s)) of
       (True, v) \<Rightarrow> s\<lparr>td := (td s)\<lparr>nthreads := v\<rparr>\<rparr>
     | (False, _) \<Rightarrow>
    (case assign_check (get_float g) parameter ''detector.decimate'' (quad_decimate (td s)) of
       (True, v) \<Rightarrow> s\<lparr>td := (td s)\<lparr>quad_decimate := v\<rparr>\<rparr>
     | (False, _) \<Rightarrow>
    (case assign_check (get_float g) parameter ''detector.blur'' (quad_sigma (td s)) of
       (True, v) \<Rightarrow> s\<lparr>td := (td s)\<lparr>quad_sigma := v\<rparr>\<rparr>
     | (False, _) \<Rightarrow>
    (case assign_check (get_bool g) parameter ''detector.refine'' (refine_edges (td s)) of
       (True, v) \<Rightarrow> s\<lparr>td := (td s)\<lparr>refine_edges := v\<rparr>\<rparr>
     | (False, _) \<Rightarrow>
    (case assign_check (get_double g) parameter ''detector.sharpening'' (decode_sharpening (td s)) of
       (True, v) \<Rightarrow> s\<lparr>td := (td s)\<lparr>decode_sharpening := v\<rparr>\<rparr>
     | (False, _) \<Rightarrow>
    (case assign_check (get_bool g) parameter ''detector.debug'' (debug (td s)) of
       (True, v) \<Rightarrow> s\<lparr>td := (td s)\<lparr>debug := v\<rparr>\<rparr>
     | (False, _) \<Rightarrow>
    (case assign_check (get_int g) parameter ''max_hamming'' (max_hamming s) of
       (True, v) \<Rightarrow> s\<lparr>max_hamming := v\<rparr>
     | (False, _) \<Rightarrow>
    (case assign_check (get_bool g) parameter ''profile'' (profile s) of
       (True, v) \<Rightarrow> s\<lparr>profile := v\<rparr>
     | (False, _) \<Rightarrow>
    (case assign_check (get_bool g) parameter ''z_up'' (z_up s) of
       (True, v) \<Rightarrow> s\<lparr>z_up := v\<rparr>
     | (False, _) \<Rightarrow>
    (case assign_check (get_bool g) parameter ''enabled'' (enabled s) of
       (True, v) \<Rightarrow> s\<lparr>enabled := v\<rparr>
     | (False, _) \<Rightarrow> s))))))))))"

text \<open>The range-for over \<open>parameters\<close>, first to last.\<close>

fun onParameter_loop :: "'v get_value \<Rightarrow> 'v Parameter list \<Rightarrow> AprilTagNode \<Rightarrow> AprilTagNode" where
  "onParameter_loop g [] s = s"
| "onParameter_loop g (parameter # parameters) s =
     onParameter_loop g parameters (onParameter_body g parameter s)"

text \<open>
  \<open>onParameter\<close> returns the result message; the node after the call is the second
  component. The mutex taken around the loop has no sequential effect.
\<close>

definition onParameter :: "'v get_value \<Rightarrow> 'v Parameter list \<Rightarrow> AprilTagNode \<Rightarrow> SetParametersResult \<times> AprilTagNode" where
  "onParameter g parameters s = (\<lparr>successful = True\<rparr>, onParameter_loop g parameters s)"

text \<open>The names the ten \<open>IF\<close> lines test.\<close>

definition recognized :: "string list" where
  "recognized = [''detector.threads'', ''detector.decimate'', ''detector.blur'',
     ''detector.refine'', ''detector.sharpening'', ''detector.debug'',
     ''max_hamming'', ''profile'', ''z_up'', ''enabled'']"

text \<open>The value of the last parameter of a batch that carries the name \<open>n\<close>.\<close>

definition last_value :: "string \<Rightarrow> 'v Parameter list \<Rightarrow> 'v option" where
  "last_value n parameters =
     (case filter (\<lambda>p. get_name p = n) parameters of
        [] \<Rightarrow> None
      | q # qs \<Rightarrow> Some (get_parameter_value (last (q # qs))))"

section \<open>Eigen vectors and matrices\<close>

text \<open>
  \<open>Mat3\<close> is \<open>Eigen::Matrix<double, 3, 3, Eigen::RowMajor>\<close>: three rows of three
  entries. The operations below are the Eigen operations \<open>getPose\<close> and \<open>onCamera\<close>
  call, over the reals (no rounding, no overflow, no NaN).
\<close>

type_synonym Vector3d = "real \<times> real \<times> real"

type_synonym Mat3 = "Vector3d \<times> Vector3d \<times> Vector3d"

definition col :: "Mat3 \<Rightarrow> nat \<Rightarrow> Vector3d" where
  "col m j =
     (case m of ((a00, a01, a02), (a10, a11, a12), (a20, a21, a22)) \<Rightarrow>
        if j = 0 then (a00, a10, a20)
        else if j = 1 then (a01, a11, a21)
        else (a02, a12, a22))"

definition of_cols :: "Vector3d \<Rightarrow> Vector3d \<Rightarrow> Vector3d \<Rightarrow> Mat3" where
  "of_cols c0 c1 c2 =
     (case (c0, c1, c2) of ((x0, y0, z0), (x1, y1, z1), (x2, y2, z2)) \<Rightarrow>
        ((x0, x1, x2), (y0, y1, y2), (z0, z1, z2)))"

definition dot :: "Vector3d \<Rightarrow> Vector3d \<Rightarrow> real" where
  "dot u v = (case (u, v) of ((a, b, c), (d, e, f)) \<Rightarrow> a * d + b * e + c * f)"

definition cross :: "Vector3d \<Rightarrow> Vector3d \<Rightarrow> Vector3d" where
  "cross u v =
     (case (u, v) of ((a, b, c), (d, e, f)) \<Rightarrow>
        (b * f - c * e, c * d - a * f, a * e - b * d))"

definition squaredNorm :: "Vector3d \<Rightarrow> real" where
  "squaredNorm v = dot v v"

definition norm3 :: "Vector3d \<Rightarrow> real" where
  "norm3 v = sqrt (squaredNorm v)"

definition vscale :: "Vector3d \<Rightarrow> real \<Rightarrow> Vector3d" where
  "vscale v k = (case v of (a, b, c) \<Rightarrow> (a * k, b * k, c * k))"

definition vdiv :: "Vector3d \<Rightarrow> real \<Rightarrow> Vector3d" where
  "vdiv v k = (case v of (a, b, c) \<Rightarrow> (a / k, b / k, c / k))"

text \<open>
  \<open>normalized()\<close>: the vector divided by its norm; Eigen returns a vector of squared
  norm zero as it is.
\<close>

definition normalized :: "Vector3d \<Rightarrow> Vector3d" where
  "normalized v = (let z = squaredNorm v in if z > 0 then vdiv v (sqrt z) else v)"

definition mat_mul :: "Mat3 \<Rightarrow> Mat3 \<Rightarrow> Mat3" where
  "mat_mul a b =
     (case a of (r0, r1, r2) \<Rightarrow>
        ((dot r0 (col b 0), dot r0 (col b 1), dot r0 (col b 2)),
         (dot r1 (col b 0), dot r1 (col b 1), dot r1 (col b 2)),
         (dot r2 (col b 0), dot r2 (col b 1), dot r2 (col b 2))))"

definition determinant :: "Mat3 \<Rightarrow> real" where
  "determinant m = dot (col m 0) (cross (col m 1) (col m 2))"

text \<open>
  \<open>inverse()\<close> of a fixed-size 3x3 matrix: the transposed cofactors divided by the
  determinant. For a singular matrix the C++ divides by zero; here \<open>x / 0 = 0\<close>. The
  claims below take \<open>Pinv\<close> as it is handed to \<open>getPose\<close>.
\<close>

definition Mat3_inverse :: "Mat3 \<Rightarrow> Mat3" where
  "Mat3_inverse m =
     (let d = determinant m in
        (vdiv (cross (col m 1) (col m 2)) d,
         vdiv (cross (col m 2) (col m 0)) d,
         vdiv (cross (col m 0) (col m 1)) d))"

type_synonym Mat34 = "(real \<times> real \<times> real \<times> real) \<times> (real \<times> real \<times> real \<times> real) \<times> (real \<times> real \<times> real \<times> real)"

definition leftCols3 :: "Mat34 \<Rightarrow> Mat3" where
  "leftCols3 P =
     (case P of ((a0, a1, a2, a3), (b0, b1, b2, b3), (c0, c1, c2, c3)) \<Rightarrow>
        ((a0, a1, a2), (b0, b1, b2), (c0, c1, c2)))"

section \<open>getPose\<close>

datatype Quaterniond = Quaterniond real real real real

record Transform =
  translation :: Vector3d
  rotation :: Quaterniond

text \<open>\<open>T = Pinv * H\<close>, line 68. \<open>H.data\<close> holds the nine entries row by row.\<close>

definition getPose_T :: "Mat3 \<Rightarrow> Mat3 \<Rightarrow> Mat3" where
  "getPose_T H Pinv = mat_mul Pinv H"

text \<open>The matrix \<open>R\<close> as it stands at line 85, after the \<open>z_up\<close> block.\<close>

definition getPose_R :: "Mat3 \<Rightarrow> Mat3 \<Rightarrow> bool \<Rightarrow> Mat3" where
  "getPose_R H Pinv zup =
     (let T = getPose_T H Pinv;
          c0 = normalized (col T 0);
          c1 = normalized (col T 1);
          c2 = cross c0 c1
      in if zup then of_cols c0 (vscale c1 (- 1)) (vscale c2 (- 1))
         else of_cols c0 c1 c2)"

text \<open>The vector \<open>tt\<close> of line 83: both norms in the divisor are taken of column 0.\<close>

definition getPose_tt :: "Mat3 \<Rightarrow> Mat3 \<Rightarrow> real \<Rightarrow> Vector3d" where
  "getPose_tt H Pinv edge_size =
     (let T = getPose_T H Pinv
      in vscale (vdiv (col T 2) ((norm3 (col T 0) + norm3 (col T 0)) / 2)) (edge_size / 2))"

text \<open>
  \<open>getPose\<close> fills the transform \<open>t\<close>. The conversion \<open>Eigen::Quaterniond q(R)\<close> is
  Eigen's and is passed in as \<open>quat\<close>.
\<close>

definition getPose :: "(Mat3 \<Rightarrow> Quaterniond) \<Rightarrow> Mat3 \<Rightarrow> Mat3 \<Rightarrow> real \<Rightarrow> bool \<Rightarrow> Transform" where
  "getPose quat H Pinv edge_size zup =
     \<lparr>translation = getPose_tt H Pinv edge_size,
      rotation = quat (getPose_R H Pinv zup)\<rparr>"

subsection \<open>Eigen's conversion of a matrix to a quaternion\<close>

text \<open>
  \<open>Eigen::Quaterniond q(R)\<close> of line 85 is Eigen's (\<open>Quaternion.h\<close>, not part of the
  sources). This is its algorithm for a 3x3 matrix, after Shoemake: with a positive
  trace \<open>t\<close> the scalar part is \<open>sqrt (t + 1) / 2\<close>; otherwise the largest diagonal
  entry \<open>i\<close> (ties go to the smaller index) gives the vector component \<open>i\<close>, and
  \<open>j\<close>, \<open>k\<close> follow \<open>i\<close> cyclically. The arguments of \<open>Quaterniond\<close> are
  \<open>w\<close>, \<open>x\<close>, \<open>y\<close>, \<open>z\<close>. The properties of \<open>onCamera\<close> and the first properties of
  \<open>getPose\<close> hold for any conversion \<open>quat\<close>; this one is used where the rotation that
  is handed out matters.
\<close>

definition Quaterniond_of_Mat3 :: "Mat3 \<Rightarrow> Quaterniond" where
  "Quaterniond_of_Mat3 m =
     (case m of ((m00, m01, m02), (m10, m11, m12), (m20, m21, m22)) \<Rightarrow>
        if m00 + m11 + m22 > 0 then
          (let t = sqrt (m00 + m11 + m22 + 1); s = (1 / 2) / t
           in Quaterniond ((1 / 2) * t) ((m21 - m12) * s) ((m02 - m20) * s) ((m10 - m01) * s))
        else if \<not> m11 > m00 \<and> \<not> m22 > m00 then
          (let t = sqrt (m00 - m11 - m22 + 1); s = (1 / 2) / t
           in Quaterniond ((m21 - m12) * s) ((1 / 2) * t) ((m10 + m01) * s) ((m20 + m02) * s))
        else if m11 > m00 \<and> \<not> m22 > m11 then
          (let t = sqrt (m11 - m22 - m00 + 1); s = (1 / 2) / t
           in Quaterniond ((m02 - m20) * s) ((m01 + m10) * s) ((1 / 2) * t) ((m21 + m12) * s))
        else
          (let t = sqrt (m22 - m00 - m11 + 1); s = (1 / 2) / t
           in Quaterniond ((m10 - m01) * s) ((m02 + m20) * s) ((m12 + m21) * s) ((1 / 2) * t)))"

text \<open>The product of two quaternions, and the quaternion of the half turn about x.\<close>

definition qmul :: "Quaterniond \<Rightarrow> Quaterniond \<Rightarrow> Quaterniond" where
  "qmul p q =
     (case (p, q) of (Quaterniond a b c d, Quaterniond e f g h) \<Rightarrow>
        Quaterniond (a * e - b * f - c * g - d * h) (a * f + b * e + c * h - d * g)
          (a * g - b * h + c * e + d * f) (a * h + b * g - c * f + d * e))"

definition q_x_pi :: Quaterniond where
  "q_x_pi = Quaterniond 0 1 0 0"

text \<open>
  Two quaternions are parallel when one is a real multiple of the other (all 2x2
  minors vanish); two non-zero quaternions stand for the same rotation exactly then.
\<close>

definition parallel :: "Quaterniond \<Rightarrow> Quaterniond \<Rightarrow> bool" where
  "parallel p q =
     (case (p, q) of (Quaterniond a b c d, Quaterniond e f g h) \<Rightarrow>
        a * f = b * e \<and> a * g = c * e \<and> a * h = d * e
        \<and> b * g = c * f \<and> b * h = d * f \<and> c * h = d * g)"

text \<open>
  The rotation matrix of a quaternion, its squared norm and its negative. A quaternion
  and its negative stand for the same rotation.
\<close>

definition Mat3_of_Quaterniond :: "Quaterniond \<Rightarrow> Mat3" where
  "Mat3_of_Quaterniond q =
     (case q of Quaterniond a b c d \<Rightarrow>
        ((a * a + b * b - c * c - d * d, 2 * (b * c - a * d), 2 * (b * d + a * c)),
         (2 * (b * c + a * d), a * a - b * b + c * c - d * d, 2 * (c * d - a * b)),
         (2 * (b * d - a * c), 2 * (c * d + a * b), a * a - b * b - c * c + d * d)))"

definition squaredNorm_q :: "Quaterniond \<Rightarrow> real" where
  "squaredNorm_q q = (case q of Quaterniond a b c d \<Rightarrow> a * a + b * b + c * c + d * d)"

definition qneg :: "Quaterniond \<Rightarrow> Quaterniond" where
  "qneg q = (case q of Quaterniond a b c d \<Rightarrow> Quaterniond (- a) (- b) (- c) (- d))"

section \<open>The constructor\<close>

text \<open>\<open>std::to_string\<close> of an integer: decimal digits, a minus sign when negative.\<close>

fun string_of_nat :: "nat \<Rightarrow> string" where
  "string_of_nat n =
     (if n < 10 then [''0123456789'' ! n]
      else string_of_nat (n div 10) @ [''0123456789'' ! (n mod 10)])"

declare string_of_nat.simps [simp del]

definition to_string :: "int \<Rightarrow> string" where
  "to_string i = (if i < 0 then CHR ''-'' # string_of_nat (nat (- i)) else string_of_nat (nat i))"

text \<open>
  The parameters read at startup, each with the value \<open>declare_parameter\<close> returns for
  it. \<open>tag.ids\<close> is a vector of \<open>int64_t\<close>; the maps are keyed by \<open>int\<close>, so a key is
  the id narrowed to 32 bits.
\<close>

record startup =
  family :: string
  size_param :: real
  ids :: "int list"
  frames :: "string list"
  sizes :: "real list"
  detector :: apriltag_detector
  max_hamming_param :: int
  profile_param :: bool
  z_up_param :: bool
  enabled_param :: bool

definition int32 :: "int \<Rightarrow> int" where
  "int32 i = signed_take_bit 31 i"

datatype runtime_error = runtime_error string

text \<open>
  The loops \<open>for (i = 0; i < ids.size(); i++) m[ids[i]] = vs[i];\<close> of lines 171 and
  184. They run only when both vectors have the same length.
\<close>

fun fill :: "int list \<Rightarrow> 'v list \<Rightarrow> (int \<times> 'v) list \<Rightarrow> (int \<times> 'v) list" where
  "fill (i # is) (v # vs) m = fill is vs (AList.update (int32 i) v m)"
| "fill _ _ m = m"

text \<open>
  The constructor's body, lines 144 to 199. \<open>tag_create\<close> (from \<open>tag_functions.hpp\<close>,
  not part of the sources) is given by the list of its keys. A \<open>throw\<close> leaves the
  constructor with the error and no node.
\<close>

definition AprilTagNode_new :: "string list \<Rightarrow> startup \<Rightarrow> runtime_error + AprilTagNode" where
  "AprilTagNode_new tag_create cfg =
     (if frames cfg \<noteq> [] \<and> length (ids cfg) \<noteq> length (frames cfg) then
        Inl (runtime_error (''Number of tag ids ('' @ to_string (int (length (ids cfg)))
               @ '') and frames ('' @ to_string (int (length (frames cfg))) @ '') mismatch!''))
      else if sizes cfg \<noteq> [] \<and> length (ids cfg) \<noteq> length (sizes cfg) then
        Inl (runtime_error (''Number of tag ids ('' @ to_string (int (length (ids cfg)))
               @ '') and sizes ('' @ to_string (int (length (sizes cfg))) @ '') mismatch!''))
      else if family cfg \<in> set tag_create then
        Inr \<lparr>td = detector cfg,
             tf = family cfg,
             tag_edge_size = size_param cfg,
             max_hamming = max_hamming_param cfg,
             profile = profile_param cfg,
             tag_frames = (if frames cfg \<noteq> [] then fill (ids cfg) (frames cfg) [] else []),
             tag_sizes = (if sizes cfg \<noteq> [] then fill (ids cfg) (sizes cfg) [] else []),
             z_up = z_up_param cfg,
             enabled = enabled_param cfg\<rparr>
      else Inl (runtime_error (''Unsupported tag family: '' @ family cfg)))"

text \<open>The claim's reading of a startup configuration with mismatched lists.\<close>

definition lists_mismatch :: "startup \<Rightarrow> bool" where
  "lists_mismatch cfg =
     (length (ids cfg) \<noteq> length (frames cfg) \<or> length (ids cfg) \<noteq> length (sizes cfg))"

text \<open>What the two \<open>if\<close> blocks of lines 165 to 188 test.\<close>

definition checked_mismatch :: "startup \<Rightarrow> bool" where
  "checked_mismatch cfg =
     ((frames cfg \<noteq> [] \<and> length (ids cfg) \<noteq> length (frames cfg)) \<or>
      (sizes cfg \<noteq> [] \<and> length (ids cfg) \<noteq> length (sizes cfg)))"

section \<open>onCamera\<close>

text \<open>
  A detection as the detector returns it (\<open>apriltag_detection_t\<close>), and the two
  messages built from it. The header type \<open>'h\<close> and the pixel data \<open>'i\<close> are opaque.
\<close>

record apriltag_detection =
  det_family_name :: string
  det_id :: int
  det_hamming :: int
  det_decision_margin :: real
  det_H :: Mat3
  det_c :: "real \<times> real"
  det_p :: "(real \<times> real) list"

record AprilTagDetection =
  msg_family :: string
  msg_id :: int
  msg_hamming :: int
  msg_decision_margin :: real
  msg_centre :: "real \<times> real"
  msg_corners :: "(real \<times> real) list"
  msg_homography :: Mat3

record 'h AprilTagDetectionArray =
  array_header :: 'h
  detections :: "AprilTagDetection list"

record 'h TransformStamped =
  tf_header :: 'h
  child_frame_id :: string
  transform :: Transform

record ('h, 'i) Image =
  header :: 'h
  image :: 'i

record CameraInfo =
  ci_p :: Mat34

text \<open>What \<open>onCamera\<close> does to the world outside the node, in the order it does it.\<close>

datatype ('h, 'i) effect =
    apriltag_detector_detect apriltag_detector 'i
  | timeprofile_display
  | publish "'h AprilTagDetectionArray"
  | sendTransform "'h TransformStamped list"

text \<open>The detection message of lines 252 to 260.\<close>

definition msg_detection :: "apriltag_detection \<Rightarrow> AprilTagDetection" where
  "msg_detection det =
     \<lparr>msg_family = det_family_name det,
      msg_id = det_id det,
      msg_hamming = det_hamming det,
      msg_decision_margin = det_decision_margin det,
      msg_centre = det_c det,
      msg_corners = det_p det,
      msg_homography = det_H det\<rparr>"

text \<open>The stamped transform of lines 264 to 268.\<close>

definition stamped_tf :: "(Mat3 \<Rightarrow> Quaterniond) \<Rightarrow> AprilTagNode \<Rightarrow> 'h \<Rightarrow> Mat3 \<Rightarrow> apriltag_detection \<Rightarrow> 'h TransformStamped" where
  "stamped_tf quat s hdr Pinv det =
     \<lparr>tf_header = hdr,
      child_frame_id =
        (if count (tag_frames s) (det_id det) then at_key (tag_frames s) (det_id det)
         else det_family_name det @ '':'' @ to_string (det_id det)),
      transform =
        getPose quat (det_H det) Pinv
          (if count (tag_sizes s) (det_id det) then at_key (tag_sizes s) (det_id det)
           else tag_edge_size s)
          (z_up s)\<rparr>"

text \<open>
  The loop of lines 234 to 271 over the detections, with the two vectors it appends
  to: \<open>msg_detections.detections\<close> and \<open>tfs\<close>.
\<close>

fun onCamera_loop :: "(Mat3 \<Rightarrow> Quaterniond) \<Rightarrow> AprilTagNode \<Rightarrow> 'h \<Rightarrow> Mat3 \<Rightarrow> apriltag_detection list
    \<Rightarrow> AprilTagDetection list \<times> 'h TransformStamped list
    \<Rightarrow> AprilTagDetection list \<times> 'h TransformStamped list" where
  "onCamera_loop quat s hdr Pinv [] acc = acc"
| "onCamera_loop quat s hdr Pinv (det # dets) (ds, tfs) =
     (if tag_frames s \<noteq> [] \<and> \<not> count (tag_frames s) (det_id det) then
        onCamera_loop quat s hdr Pinv dets (ds, tfs)
      else if det_hamming det > max_hamming s then
        onCamera_loop quat s hdr Pinv dets (ds, tfs)
      else
        onCamera_loop quat s hdr Pinv dets
          (ds @ [msg_detection det], tfs @ [stamped_tf quat s hdr Pinv det]))"

text \<open>
  \<open>onCamera\<close>. The detector (\<open>detect\<close>) is the apriltag library's; it is called with
  the detector's tuning fields and the image, which \<open>cv_bridge\<close> has converted to 8-bit
  monochrome. The function assigns no member of the node, so its result is the list of
  its effects.
\<close>

definition onCamera :: "(apriltag_detector \<Rightarrow> 'i \<Rightarrow> apriltag_detection list) \<Rightarrow> (Mat3 \<Rightarrow> Quaterniond)
    \<Rightarrow> AprilTagNode \<Rightarrow> ('h, 'i) Image \<Rightarrow> CameraInfo \<Rightarrow> ('h, 'i) effect list" where
  "onCamera detect quat s msg_img msg_ci =
     (if \<not> enabled s then []
      else
        let Pinv = Mat3_inverse (leftCols3 (ci_p msg_ci));
            dets = detect (td s) (image msg_img);
            (ds, tfs) = onCamera_loop quat s (header msg_img) Pinv dets ([], [])
        in [apriltag_detector_detect (td s) (image msg_img)]
           @ (if profile s then [timeprofile_display] else [])
           @ [publish \<lparr>array_header = header msg_img, detections = ds\<rparr>,
              sendTransform tfs])"

text \<open>The detection records and the transforms a run of \<open>onCamera\<close> emits.\<close>

fun emitted_detections :: "('h, 'i) effect list \<Rightarrow> AprilTagDetection list" where
  "emitted_detections [] = []"
| "emitted_detections (publish m # es) = detections m @ emitted_detections es"
| "emitted_detections (_ # es) = emitted_detections es"

fun emitted_poses :: "('h, 'i) effect list \<Rightarrow> 'h TransformStamped list" where
  "emitted_poses [] = []"
| "emitted_poses (sendTransform ts # es) = ts @ emitted_poses es"
| "emitted_poses (_ # es) = emitted_poses es"

fun detector_invoked :: "('h, 'i) effect list \<Rightarrow> bool" where
  "detector_invoked [] = False"
| "detector_invoked (apriltag_detector_detect d i # es) = True"
| "detector_invoked (_ # es) = detector_invoked es"

text \<open>A raw detection passes both filters of the loop.\<close>

definition survives :: "AprilTagNode \<Rightarrow> apriltag_detection \<Rightarrow> bool" where
  "survives s det =
     (\<not> (tag_frames s \<noteq> [] \<and> \<not> count (tag_frames s) (det_id det))
      \<and> \<not> det_hamming det > max_hamming s)"

section \<open>The pose conventions the properties speak about\<close>

text \<open>A half turn about the x-axis.\<close>

definition rot_x_pi :: Mat3 where
  "rot_x_pi = ((1, 0, 0), (0, - 1, 0), (0, 0, - 1))"

text \<open>
  A proper orthonormal rotation up to a tolerance: unit columns, mutually orthogonal
  columns, determinant one.
\<close>

definition proper_rotation_within :: "real \<Rightarrow> Mat3 \<Rightarrow> bool" where
  "proper_rotation_within eps R =
     (\<bar>norm3 (col R 0) - 1\<bar> \<le> eps \<and> \<bar>norm3 (col R 1) - 1\<bar> \<le> eps
      \<and> \<bar>norm3 (col R 2) - 1\<bar> \<le> eps
      \<and> \<bar>dot (col R 0) (col R 1)\<bar> \<le> eps \<and> \<bar>dot (col R 0) (col R 2)\<bar> \<le> eps
      \<and> \<bar>dot (col R 1) (col R 2)\<bar> \<le> eps
      \<and> \<bar>determinant R - 1\<bar> \<le> eps)"

text \<open>
  The translation as the specification words it: the third column of \<open>T\<close> divided by
  the average of the norms of the first two columns, times half the edge size.
\<close>

definition spec_translation :: "Mat3 \<Rightarrow> Mat3 \<Rightarrow> real \<Rightarrow> Vector3d" where
  "spec_translation H Pinv edge_size =
     (let T = getPose_T H Pinv
      in vscale (vdiv (col T 2) ((norm3 (col T 0) + norm3 (col T 1)) / 2)) (edge_size / 2))"

section \<open>Concrete inputs\<close>

definition Identity :: Mat3 where
  "Identity = ((1, 0, 0), (0, 1, 0), (0, 0, 1))"

definition H_stretch :: Mat3 where
  "H_stretch = ((1, 0, 0), (0, 2, 0), (0, 0, 1))"

definition H_shear :: Mat3 where
  "H_shear = ((1, 3, 0), (0, 4, 0), (0, 0, 1))"

definition H_skew :: Mat3 where
  "H_skew = ((1, 24, 0), (0, 7, 0), (0, 0, 1))"

text \<open>Parameter values that are integers, read the way C++ converts them.\<close>

definition g0 :: "int get_value" where
  "g0 = \<lparr>get_int = (\<lambda>v. v), get_float = real_of_int, get_double = real_of_int,
          get_bool = (\<lambda>v. v \<noteq> 0)\<rparr>"

definition node0 :: AprilTagNode where
  "node0 = \<lparr>td = \<lparr>nthreads = 1, quad_decimate = 2, quad_sigma = 0, refine_edges = True,
                  decode_sharpening = 1 / 4, debug = False\<rparr>,
            tf = ''36h11'', tag_edge_size = 1, max_hamming = 0, profile = False,
            tag_frames = [(3, ''base'')], tag_sizes = [], z_up = True, enabled = True\<rparr>"

definition cfg0 :: startup where
  "cfg0 = \<lparr>family = ''36h11'', size_param = 1, ids = [1, 2], frames = [], sizes = [],
           detector = td node0, max_hamming_param = 0, profile_param = False,
           z_up_param = True, enabled_param = False\<rparr>"

definition cfg1 :: startup where
  "cfg1 = cfg0\<lparr>frames := [''a'']\<rparr>"

definition cfg2 :: startup where
  "cfg2 = cfg0\<lparr>frames := [''a'', ''b''], sizes := [1 / 10]\<rparr>"

definition cfg3 :: startup where
  "cfg3 = cfg0\<lparr>sizes := [1 / 2, 1 / 4]\<rparr>"

definition cfg4 :: startup where
  "cfg4 = cfg0\<lparr>frames := [''a'', ''b'']\<rparr>"

definition cfg5 :: startup where
  "cfg5 = cfg0\<lparr>family := ''unknown''\<rparr>"

text \<open>
  Three detections of one frame: tag 4 is not in the allow-list of \<open>node0\<close>, tag 3 is,
  and the second sighting of tag 3 has one corrected bit.
\<close>

definition det_a :: apriltag_detection where
  "det_a = \<lparr>det_family_name = ''tag36h11'', det_id = 3, det_hamming = 0,
            det_decision_margin = 50, det_H = Identity, det_c = (0, 0),
            det_p = [(- 1, 1), (1, 1), (1, - 1), (- 1, - 1)]\<rparr>"

definition det_b :: apriltag_detection where
  "det_b = det_a\<lparr>det_id := 4\<rparr>"

definition det_d :: apriltag_detection where
  "det_d = det_a\<lparr>det_hamming := 1\<rparr>"

definition detect0 :: "apriltag_detector \<Rightarrow> nat \<Rightarrow> apriltag_detection list" where
  "detect0 d i = [det_b, det_a, det_d]"

definition quat0 :: "Mat3 \<Rightarrow> Quaterniond" where
  "quat0 R = Quaterniond 1 0 0 0"

definition img0 :: "(nat, nat) Image" where
  "img0 = \<lparr>header = 0, image = 0\<rparr>"

definition ci0 :: CameraInfo where
  "ci0 = \<lparr>ci_p = ((1, 0, 0, 0), (0, 1, 0, 0), (0, 0, 1, 0))\<rparr>"

section \<open>Properties of onParameter\<close>

lemma onParameter_body_cases:
  "onParameter_body g p s =
    (if get_name p = ''detector.threads'' then s\<lparr>td := (td s)\<lparr>nthreads := get_int g (get_parameter_value p)\<rparr>\<rparr>
     else if get_name p = ''detector.decimate'' then s\<lparr>td := (td s)\<lparr>quad_decimate := get_float g (get_parameter_value p)\<rparr>\<rparr>
     else if get_name p = ''detector.blur'' then s\<lparr>td := (td s)\<lparr>quad_sigma := get_float g (get_parameter_value p)\<rparr>\<rparr>
     else if get_name p = ''detector.refine'' then s\<lparr>td := (td s)\<lparr>refine_edges := get_bool g (get_parameter_value p)\<rparr>\<rparr>
     else if get_name p = ''detector.sharpening'' then s\<lparr>td := (td s)\<lparr>decode_sharpening := get_double g (get_parameter_value p)\<rparr>\<rparr>
     else if get_name p = ''detector.debug'' then s\<lparr>td := (td s)\<lparr>debug := get_bool g (get_parameter_value p)\<rparr>\<rparr>
     else if get_name p = ''max_hamming'' then s\<lparr>max_hamming := get_int g (get_parameter_value p)\<rparr>
     else if get_name p = ''profile'' then s\<lparr>profile := get_bool g (get_parameter_value p)\<rparr>
     else if get_name p = ''z_up'' then s\<lparr>z_up := get_bool g (get_parameter_value p)\<rparr>
     else if get_name p = ''enabled'' then s\<lparr>enabled := get_bool g (get_parameter_value p)\<rparr>
     else s)"
  by (simp add: onParameter_body_def assign_check_def)

lemma onParameter_body_unrecognized:
  "get_name p \<notin> set recognized \<Longrightarrow> onParameter_body g p s = s"
  by (simp add: onParameter_body_cases recognized_def)

lemma onParameter_loop_append:
  "onParameter_loop g (ps @ qs) s = onParameter_loop g qs (onParameter_loop g ps s)"
  by (induction ps arbitrary: s) simp_all

lemma onParameter_loop_filter:
  "onParameter_loop g (filter (\<lambda>p. get_name p \<in> set recognized) ps) s = onParameter_loop g ps s"
  by (induction ps arbitrary: s) (simp_all add: onParameter_body_unrecognized)

lemma last_value_Nil: "last_value n [] = None"
  by (simp add: last_value_def)

lemma last_value_Cons:
  "last_value n (p # ps) =
     (case last_value n ps of
        None \<Rightarrow> (if get_name p = n then Some (get_parameter_value p) else None)
      | Some v \<Rightarrow> Some v)"
  by (simp add: last_value_def split: list.splits)

text \<open>A field that one name writes and no other name touches.\<close>

lemma onParameter_loop_field:
  assumes "\<And>p s. f (onParameter_body g p s) = (if get_name p = n then c (get_parameter_value p) else f s)"
  shows "f (onParameter_loop g ps s) = (case last_value n ps of None \<Rightarrow> f s | Some v \<Rightarrow> c v)"
proof (induction ps arbitrary: s)
  case Nil
  show ?case by (simp add: last_value_Nil)
next
  case (Cons p ps)
  show ?case
    by (simp add: Cons.IH assms last_value_Cons split: option.splits)
qed

lemma onParameter_loop_untouched:
  assumes "\<And>p s. f (onParameter_body g p s) = f s"
  shows "f (onParameter_loop g ps s) = f s"
  by (induction ps arbitrary: s) (simp_all add: assms)

lemma loop_nthreads:
  "nthreads (td (onParameter_loop g ps s)) =
     (case last_value ''detector.threads'' ps of None \<Rightarrow> nthreads (td s) | Some v \<Rightarrow> get_int g v)"
  by (rule onParameter_loop_field [where f = "\<lambda>s. nthreads (td s)"]) (simp add: onParameter_body_cases)

lemma loop_quad_decimate:
  "quad_decimate (td (onParameter_loop g ps s)) =
     (case last_value ''detector.decimate'' ps of None \<Rightarrow> quad_decimate (td s) | Some v \<Rightarrow> get_float g v)"
  by (rule onParameter_loop_field [where f = "\<lambda>s. quad_decimate (td s)"]) (simp add: onParameter_body_cases)

lemma loop_quad_sigma:
  "quad_sigma (td (onParameter_loop g ps s)) =
     (case last_value ''detector.blur'' ps of None \<Rightarrow> quad_sigma (td s) | Some v \<Rightarrow> get_float g v)"
  by (rule onParameter_loop_field [where f = "\<lambda>s. quad_sigma (td s)"]) (simp add: onParameter_body_cases)

lemma loop_refine_edges:
  "refine_edges (td (onParameter_loop g ps s)) =
     (case last_value ''detector.refine'' ps of None \<Rightarrow> refine_edges (td s) | Some v \<Rightarrow> get_bool g v)"
  by (rule onParameter_loop_field [where f = "\<lambda>s. refine_edges (td s)"]) (simp add: onParameter_body_cases)

lemma loop_decode_sharpening:
  "decode_sharpening (td (onParameter_loop g ps s)) =
     (case last_value ''detector.sharpening'' ps of None \<Rightarrow> decode_sharpening (td s) | Some v \<Rightarrow> get_double g v)"
  by (rule onParameter_loop_field [where f = "\<lambda>s. decode_sharpening (td s)"]) (simp add: onParameter_body_cases)

lemma loop_debug:
  "debug (td (onParameter_loop g ps s)) =
     (case last_value ''detector.debug'' ps of None \<Rightarrow> debug (td s) | Some v \<Rightarrow> get_bool g v)"
  by (rule onParameter_loop_field [where f = "\<lambda>s. debug (td s)"]) (simp add: onParameter_body_cases)

lemma loop_max_hamming:
  "max_hamming (onParameter_loop g ps s) =
     (case last_value ''max_hamming'' ps of None \<Rightarrow> max_hamming s | Some v \<Rightarrow> get_int g v)"
  by (rule onParameter_loop_field [where f = max_hamming]) (simp add: onParameter_body_cases)

lemma loop_profile:
  "profile (onParameter_loop g ps s) =
     (case last_value ''profile'' ps of None \<Rightarrow> profile s | Some v \<Rightarrow> get_bool g v)"
  by (rule onParameter_loop_field [where f = profile]) (simp add: onParameter_body_cases)

lemma loop_z_up:
  "z_up (onParameter_loop g ps s) =
     (case last_value ''z_up'' ps of None \<Rightarrow> z_up s | Some v \<Rightarrow> get_bool g v)"
  by (rule onParameter_loop_field [where f = z_up]) (simp add: onParameter_body_cases)

lemma loop_enabled:
  "enabled (onParameter_loop g ps s) =
     (case last_value ''enabled'' ps of None \<Rightarrow> enabled s | Some v \<Rightarrow> get_bool g v)"
  by (rule onParameter_loop_field [where f = enabled]) (simp add: onParameter_body_cases)

lemmas loop_fields = loop_nthreads loop_quad_decimate loop_quad_sigma loop_refine_edges
  loop_decode_sharpening loop_debug loop_max_hamming loop_profile loop_z_up loop_enabled

lemma loop_fixed:
  "tf (onParameter_loop g ps s) = tf s"
  "tag_edge_size (onParameter_loop g ps s) = tag_edge_size s"
  "tag_frames (onParameter_loop g ps s) = tag_frames s"
  "tag_sizes (onParameter_loop g ps s) = tag_sizes s"
  by (rule onParameter_loop_untouched, simp add: onParameter_body_cases)+

lemma onParameter_loop_idem:
  "onParameter_loop g ps (onParameter_loop g ps s) = onParameter_loop g ps s"
proof (rule AprilTagNode.equality)
  show "td (onParameter_loop g ps (onParameter_loop g ps s)) = td (onParameter_loop g ps s)"
    by (rule apriltag_detector.equality) (simp_all add: loop_fields split: option.splits)
qed (simp_all add: loop_fields loop_fixed split: option.splits)

text \<open>
  C9. For every batch of parameters \<open>onParameter\<close> reports success; a parameter whose
  name is none of the ten recognized names leaves the whole node unchanged, so a batch
  acts as the same batch without such parameters.
\<close>

theorem onParameter_success_unrecognized_ignored:
  "fst (onParameter g parameters s) = \<lparr>successful = True\<rparr>
   \<and> (get_name parameter \<notin> set recognized \<longrightarrow> onParameter_body g parameter s = s)
   \<and> snd (onParameter g parameters s)
       = snd (onParameter g (filter (\<lambda>p. get_name p \<in> set recognized) parameters) s)"
  by (simp add: onParameter_def onParameter_body_unrecognized onParameter_loop_filter)

theorem onParameter_success_unrecognized_ignored_witness:
  "''family'' \<notin> set recognized
   \<and> fst (onParameter g0 [\<lparr>get_name = ''family'', get_parameter_value = 7\<rparr>,
                            \<lparr>get_name = ''max_hamming'', get_parameter_value = 2\<rparr>] node0)
       = \<lparr>successful = True\<rparr>
   \<and> onParameter_body g0 \<lparr>get_name = ''family'', get_parameter_value = 7\<rparr> node0 = node0
   \<and> snd (onParameter g0 [\<lparr>get_name = ''family'', get_parameter_value = 7\<rparr>,
                            \<lparr>get_name = ''max_hamming'', get_parameter_value = 2\<rparr>] node0)
       = node0\<lparr>max_hamming := 2\<rparr>"
proof -
  let ?p = "\<lparr>get_name = ''family'', get_parameter_value = 7::int\<rparr>"
  let ?q = "\<lparr>get_name = ''max_hamming'', get_parameter_value = 2::int\<rparr>"
  have n: "''family'' \<notin> set recognized"
    by (simp add: recognized_def)
  have f: "filter (\<lambda>p. get_name p \<in> set recognized) [?p, ?q] = [?q]"
    by (simp add: recognized_def)
  have q: "onParameter_body g0 ?q node0 = node0\<lparr>max_hamming := 2\<rparr>"
    by (simp add: onParameter_body_def assign_check_def g0_def)
  from onParameter_success_unrecognized_ignored [of g0 "[?p, ?q]" node0 ?p]
  show ?thesis
    using n f q by (simp add: onParameter_def)
qed

text \<open>
  C10. The parameters of a batch are applied in list order (a batch \<open>ps @ qs\<close> acts as
  \<open>ps\<close> followed by \<open>qs\<close>); after the batch each of the ten fields holds the value of
  the last parameter that carries its name, or its old value when no parameter does; and
  applying the same batch a second time changes nothing.
\<close>

theorem onParameter_last_writer_wins:
  "snd (onParameter g (ps @ qs) s) = snd (onParameter g qs (snd (onParameter g ps s)))
   \<and> nthreads (td (snd (onParameter g ps s)))
       = (case last_value ''detector.threads'' ps of None \<Rightarrow> nthreads (td s) | Some v \<Rightarrow> get_int g v)
   \<and> quad_decimate (td (snd (onParameter g ps s)))
       = (case last_value ''detector.decimate'' ps of None \<Rightarrow> quad_decimate (td s) | Some v \<Rightarrow> get_float g v)
   \<and> quad_sigma (td (snd (onParameter g ps s)))
       = (case last_value ''detector.blur'' ps of None \<Rightarrow> quad_sigma (td s) | Some v \<Rightarrow> get_float g v)
   \<and> refine_edges (td (snd (onParameter g ps s)))
       = (case last_value ''detector.refine'' ps of None \<Rightarrow> refine_edges (td s) | Some v \<Rightarrow> get_bool g v)
   \<and> decode_sharpening (td (snd (onParameter g ps s)))
       = (case last_value ''detector.sharpening'' ps of None \<Rightarrow> decode_sharpening (td s) | Some v \<Rightarrow> get_double g v)
   \<and> debug (td (snd (onParameter g ps s)))
       = (case last_value ''detector.debug'' ps of None \<Rightarrow> debug (td s) | Some v \<Rightarrow> get_bool g v)
   \<and> max_hamming (snd (onParameter g ps s))
       = (case last_value ''max_hamming'' ps of None \<Rightarrow> max_hamming s | Some v \<Rightarrow> get_int g v)
   \<and> profile (snd (onParameter g ps s))
       = (case last_value ''profile'' ps of None \<Rightarrow> profile s | Some v \<Rightarrow> get_bool g v)
   \<and> z_up (snd (onParameter g ps s))
       = (case last_value ''z_up'' ps of None \<Rightarrow> z_up s | Some v \<Rightarrow> get_bool g v)
   \<and> enabled (snd (onParameter g ps s))
       = (case last_value ''enabled'' ps of None \<Rightarrow> enabled s | Some v \<Rightarrow> get_bool g v)
   \<and> snd (onParameter g ps (snd (onParameter g ps s))) = snd (onParameter g ps s)"
  unfolding onParameter_def snd_conv
  by (intro conjI onParameter_loop_append loop_fields onParameter_loop_idem)

theorem onParameter_last_writer_wins_witness:
  "max_hamming (snd (onParameter g0
      [\<lparr>get_name = ''max_hamming'', get_parameter_value = 2\<rparr>,
       \<lparr>get_name = ''z_up'', get_parameter_value = 0\<rparr>,
       \<lparr>get_name = ''max_hamming'', get_parameter_value = 5\<rparr>] node0)) = 5
   \<and> z_up (snd (onParameter g0
      [\<lparr>get_name = ''max_hamming'', get_parameter_value = 2\<rparr>,
       \<lparr>get_name = ''z_up'', get_parameter_value = 0\<rparr>,
       \<lparr>get_name = ''max_hamming'', get_parameter_value = 5\<rparr>] node0)) = False"
proof -
  let ?ps = "[\<lparr>get_name = ''max_hamming'', get_parameter_value = 2::int\<rparr>,
       \<lparr>get_name = ''z_up'', get_parameter_value = 0\<rparr>,
       \<lparr>get_name = ''max_hamming'', get_parameter_value = 5\<rparr>]"
  have a: "last_value ''max_hamming'' ?ps = Some 5"
    by (simp add: last_value_def)
  have b: "last_value ''z_up'' ?ps = Some 0"
    by (simp add: last_value_def)
  from onParameter_last_writer_wins [of g0 ?ps "[]" node0]
  show ?thesis
    by (simp add: a b g0_def)
qed

section \<open>Properties of the constructor\<close>

text \<open>
  C4, as stated, fails: with two ids and no frame names and no sizes the lists differ
  in length, and the constructor returns a node.
\<close>

theorem AprilTagNode_new_accepts_empty_lists:
  "lists_mismatch cfg0 \<and> \<not> isl (AprilTagNode_new [''36h11''] cfg0)"
  by (simp add: lists_mismatch_def cfg0_def AprilTagNode_new_def)

text \<open>
  C4, amended. Construction throws, and yields no node, whenever the frame list is not
  empty and differs in length from the id list, or the size list is not empty and
  differs in length from the id list; with a supported family these are the only
  failures. So an empty frame list is accepted with any id list (when the size list is
  empty or as long as the id list), and an empty size list likewise; a node is only
  built when neither check fails, and an empty list leaves its map empty.
\<close>

theorem AprilTagNode_new_checked_mismatch:
  "(isl (AprilTagNode_new tag_create cfg) \<longleftrightarrow> checked_mismatch cfg \<or> family cfg \<notin> set tag_create)
   \<and> (checked_mismatch cfg \<longrightarrow> (\<exists>msg. AprilTagNode_new tag_create cfg = Inl (runtime_error msg)))
   \<and> (AprilTagNode_new tag_create cfg = Inr node \<longrightarrow>
        \<not> checked_mismatch cfg
        \<and> (frames cfg = [] \<longrightarrow> tag_frames node = [])
        \<and> (sizes cfg = [] \<longrightarrow> tag_sizes node = []))
   \<and> (frames cfg = [] \<and> (sizes cfg = [] \<or> length (ids cfg) = length (sizes cfg))
        \<and> family cfg \<in> set tag_create
        \<longrightarrow> \<not> isl (AprilTagNode_new tag_create cfg))
   \<and> (sizes cfg = [] \<and> (frames cfg = [] \<or> length (ids cfg) = length (frames cfg))
        \<and> family cfg \<in> set tag_create
        \<longrightarrow> \<not> isl (AprilTagNode_new tag_create cfg))"
  by (auto simp add: checked_mismatch_def AprilTagNode_new_def)

theorem AprilTagNode_new_checked_mismatch_witness:
  "checked_mismatch cfg1
   \<and> AprilTagNode_new [''36h11''] cfg1
       = Inl (runtime_error ''Number of tag ids (2) and frames (1) mismatch!'')
   \<and> checked_mismatch cfg2
   \<and> AprilTagNode_new [''36h11''] cfg2
       = Inl (runtime_error ''Number of tag ids (2) and sizes (1) mismatch!'')
   \<and> frames cfg0 = [] \<and> sizes cfg0 = [] \<and> ids cfg0 = [1, 2]
   \<and> \<not> isl (AprilTagNode_new [''36h11''] cfg0)
   \<and> frames cfg3 = [] \<and> ids cfg3 = [1, 2] \<and> sizes cfg3 = [1 / 2, 1 / 4]
   \<and> \<not> isl (AprilTagNode_new [''36h11''] cfg3)
   \<and> sizes cfg4 = [] \<and> ids cfg4 = [1, 2] \<and> frames cfg4 = [''a'', ''b'']
   \<and> \<not> isl (AprilTagNode_new [''36h11''] cfg4)
   \<and> \<not> checked_mismatch cfg5 \<and> isl (AprilTagNode_new [''36h11''] cfg5)"
proof -
  have c1: "checked_mismatch cfg1" and c2: "checked_mismatch cfg2"
    by (simp_all add: checked_mismatch_def cfg1_def cfg2_def cfg0_def)
  have c0: "frames cfg0 = [] \<and> sizes cfg0 = [] \<and> ids cfg0 = [1, 2] \<and> family cfg0 \<in> set [''36h11'']"
    by (simp add: cfg0_def)
  have c3: "frames cfg3 = [] \<and> ids cfg3 = [1, 2] \<and> sizes cfg3 = [1 / 2, 1 / 4]
      \<and> family cfg3 \<in> set [''36h11'']"
    by (simp add: cfg3_def cfg0_def)
  have c4: "sizes cfg4 = [] \<and> ids cfg4 = [1, 2] \<and> frames cfg4 = [''a'', ''b'']
      \<and> family cfg4 \<in> set [''36h11'']"
    by (simp add: cfg4_def cfg0_def)
  have c5: "\<not> checked_mismatch cfg5 \<and> family cfg5 \<notin> set [''36h11'']"
    by (simp add: checked_mismatch_def cfg5_def cfg0_def)
  have m1: "AprilTagNode_new [''36h11''] cfg1 = Inl (runtime_error msg)
      \<Longrightarrow> msg = ''Number of tag ids (2) and frames (1) mismatch!''" for msg
    by (simp add: AprilTagNode_new_def cfg1_def cfg0_def to_string_def string_of_nat.simps)
  have m2: "AprilTagNode_new [''36h11''] cfg2 = Inl (runtime_error msg)
      \<Longrightarrow> msg = ''Number of tag ids (2) and sizes (1) mismatch!''" for msg
    by (simp add: AprilTagNode_new_def cfg2_def cfg0_def to_string_def string_of_nat.simps)
  from AprilTagNode_new_checked_mismatch [of "[''36h11'']" cfg1] c1 m1
  have r1: "AprilTagNode_new [''36h11''] cfg1
       = Inl (runtime_error ''Number of tag ids (2) and frames (1) mismatch!'')"
    by blast
  from AprilTagNode_new_checked_mismatch [of "[''36h11'']" cfg2] c2 m2
  have r2: "AprilTagNode_new [''36h11''] cfg2
       = Inl (runtime_error ''Number of tag ids (2) and sizes (1) mismatch!'')"
    by blast
  from AprilTagNode_new_checked_mismatch [of "[''36h11'']" cfg0] c0
  have r0: "\<not> isl (AprilTagNode_new [''36h11''] cfg0)"
    by blast
  have l3: "length (ids cfg3) = length (sizes cfg3)"
    by (simp add: cfg3_def cfg0_def)
  have l4: "length (ids cfg4) = length (frames cfg4)"
    by (simp add: cfg4_def cfg0_def)
  from AprilTagNode_new_checked_mismatch [of "[''36h11'']" cfg3] c3 l3
  have r3: "\<not> isl (AprilTagNode_new [''36h11''] cfg3)"
    by blast
  from AprilTagNode_new_checked_mismatch [of "[''36h11'']" cfg4] c4 l4
  have r4: "\<not> isl (AprilTagNode_new [''36h11''] cfg4)"
    by blast
  from AprilTagNode_new_checked_mismatch [of "[''36h11'']" cfg5] c5
  have r5: "isl (AprilTagNode_new [''36h11''] cfg5)"
    by blast
  from c1 c2 c0 c3 c4 c5 r1 r2 r0 r3 r4 r5 show ?thesis by blast
qed

section \<open>Properties of onCamera\<close>

lemma onCamera_loop_filter:
  "onCamera_loop quat s hdr Pinv dets (ds, tfs) =
     (ds @ map msg_detection (filter (survives s) dets),
      tfs @ map (stamped_tf quat s hdr Pinv) (filter (survives s) dets))"
  by (induction dets arbitrary: ds tfs) (auto simp add: survives_def)

lemma onCamera_enabled:
  "enabled s \<Longrightarrow>
   onCamera detect quat s msg_img msg_ci =
     [apriltag_detector_detect (td s) (image msg_img)]
     @ (if profile s then [timeprofile_display] else [])
     @ [publish \<lparr>array_header = header msg_img,
                 detections = map msg_detection (filter (survives s) (detect (td s) (image msg_img)))\<rparr>,
        sendTransform (map (stamped_tf quat s (header msg_img) (Mat3_inverse (leftCols3 (ci_p msg_ci))))
                         (filter (survives s) (detect (td s) (image msg_img))))]"
  by (simp add: onCamera_def onCamera_loop_filter Let_def)

lemma emitted_detections_onCamera:
  "emitted_detections (onCamera detect quat s msg_img msg_ci) =
     (if enabled s then map msg_detection (filter (survives s) (detect (td s) (image msg_img))) else [])"
  by (simp add: onCamera_enabled) (simp add: onCamera_def)

lemma emitted_poses_onCamera:
  "emitted_poses (onCamera detect quat s msg_img msg_ci) =
     (if enabled s
      then map (stamped_tf quat s (header msg_img) (Mat3_inverse (leftCols3 (ci_p msg_ci))))
             (filter (survives s) (detect (td s) (image msg_img)))
      else [])"
  by (simp add: onCamera_enabled) (simp add: onCamera_def)

lemma survivors_detect0: "filter (survives node0) (detect0 d i) = [det_a]"
  by (simp add: detect0_def survives_def node0_def det_a_def det_b_def det_d_def count_def)

text \<open>
  C5. With \<open>enabled\<close> false, \<open>onCamera\<close> has no effect at all: the detector is not
  called, nothing is published, and no detection record or transform is emitted.
\<close>

theorem onCamera_disabled:
  "\<not> enabled s \<Longrightarrow>
     onCamera detect quat s msg_img msg_ci = []
     \<and> emitted_detections (onCamera detect quat s msg_img msg_ci) = []
     \<and> emitted_poses (onCamera detect quat s msg_img msg_ci) = []
     \<and> \<not> detector_invoked (onCamera detect quat s msg_img msg_ci)"
  by (simp add: onCamera_def)

theorem onCamera_disabled_witness:
  "\<not> enabled (node0\<lparr>enabled := False\<rparr>)
   \<and> onCamera detect0 quat0 (node0\<lparr>enabled := False\<rparr>) img0 ci0 = []
   \<and> \<not> detector_invoked (onCamera detect0 quat0 (node0\<lparr>enabled := False\<rparr>) img0 ci0)
   \<and> detector_invoked (onCamera detect0 quat0 node0 img0 ci0)"
proof -
  have d: "\<not> enabled (node0\<lparr>enabled := False\<rparr>)" by simp
  have e: "detector_invoked (onCamera detect0 quat0 node0 img0 ci0)"
    by (simp add: onCamera_enabled node0_def)
  from onCamera_disabled [OF d, of detect0 quat0 img0 ci0] d e
  show ?thesis by simp
qed

text \<open>
  C6. When the id-to-name map is not empty, every emitted detection record has an id
  that the map holds; no emitted record has a hamming distance above \<open>max_hamming\<close>;
  and a detection whose hamming distance is exactly \<open>max_hamming\<close> is emitted when the
  allow-list lets it through.
\<close>

theorem onCamera_filters:
  "(tag_frames s \<noteq> [] \<longrightarrow>
      (\<forall>d \<in> set (emitted_detections (onCamera detect quat s msg_img msg_ci)).
         count (tag_frames s) (msg_id d)))
   \<and> (\<forall>d \<in> set (emitted_detections (onCamera detect quat s msg_img msg_ci)).
         msg_hamming d \<le> max_hamming s)
   \<and> (enabled s \<and> det \<in> set (detect (td s) (image msg_img))
        \<and> det_hamming det = max_hamming s
        \<and> (tag_frames s = [] \<or> count (tag_frames s) (det_id det))
      \<longrightarrow> msg_detection det \<in> set (emitted_detections (onCamera detect quat s msg_img msg_ci)))"
  by (auto simp add: emitted_detections_onCamera survives_def msg_detection_def)

theorem onCamera_filters_witness:
  "tag_frames node0 \<noteq> []
   \<and> enabled node0 \<and> det_a \<in> set (detect0 (td node0) (image img0))
   \<and> det_hamming det_a = max_hamming node0
   \<and> count (tag_frames node0) (det_id det_a)
   \<and> msg_detection det_a \<in> set (emitted_detections (onCamera detect0 quat0 node0 img0 ci0))
   \<and> count (tag_frames node0) (msg_id (msg_detection det_a))
   \<and> msg_hamming (msg_detection det_a) \<le> max_hamming node0"
proof -
  have h: "tag_frames node0 \<noteq> [] \<and> enabled node0 \<and> det_a \<in> set (detect0 (td node0) (image img0))
      \<and> det_hamming det_a = max_hamming node0 \<and> count (tag_frames node0) (det_id det_a)"
    by (simp add: node0_def detect0_def det_a_def count_def)
  from onCamera_filters [of node0 detect0 quat0 img0 ci0 det_a] h
  show ?thesis by blast
qed

text \<open>
  C7. For a processed frame (\<open>enabled\<close> true) the emitted detection records and the
  emitted transforms are both built, one each and in the detector's order, from the
  detections that pass the two filters: the two batches have the same length, the
  number of such detections.
\<close>

theorem onCamera_batches:
  "enabled s \<Longrightarrow>
     emitted_detections (onCamera detect quat s msg_img msg_ci)
       = map msg_detection (filter (survives s) (detect (td s) (image msg_img)))
     \<and> emitted_poses (onCamera detect quat s msg_img msg_ci)
       = map (stamped_tf quat s (header msg_img) (Mat3_inverse (leftCols3 (ci_p msg_ci))))
           (filter (survives s) (detect (td s) (image msg_img)))
     \<and> length (emitted_detections (onCamera detect quat s msg_img msg_ci))
       = length (emitted_poses (onCamera detect quat s msg_img msg_ci))
     \<and> length (emitted_detections (onCamera detect quat s msg_img msg_ci))
       = length (filter (survives s) (detect (td s) (image msg_img)))
     \<and> map msg_id (emitted_detections (onCamera detect quat s msg_img msg_ci))
       = map det_id (filter (survives s) (detect (td s) (image msg_img)))"
  by (simp add: emitted_detections_onCamera emitted_poses_onCamera msg_detection_def comp_def)

theorem onCamera_batches_witness:
  "enabled node0
   \<and> emitted_detections (onCamera detect0 quat0 node0 img0 ci0) = [msg_detection det_a]
   \<and> length (emitted_poses (onCamera detect0 quat0 node0 img0 ci0)) = 1
   \<and> map child_frame_id (emitted_poses (onCamera detect0 quat0 node0 img0 ci0)) = [''base'']"
proof -
  have e: "enabled node0" by (simp add: node0_def)
  have c: "child_frame_id (stamped_tf quat0 node0 h P det_a) = ''base''" for h :: nat and P
    by (simp add: stamped_tf_def node0_def det_a_def count_def at_key_def)
  from onCamera_batches [OF e, of detect0 quat0 img0 ci0] e
  show ?thesis by (simp add: survivors_detect0 c)
qed

section \<open>Vector algebra\<close>

lemma col_simps [simp]:
  "col ((a00, a01, a02), (a10, a11, a12), (a20, a21, a22)) 0 = (a00, a10, a20)"
  "col ((a00, a01, a02), (a10, a11, a12), (a20, a21, a22)) 1 = (a01, a11, a21)"
  "col ((a00, a01, a02), (a10, a11, a12), (a20, a21, a22)) (Suc 0) = (a01, a11, a21)"
  "col ((a00, a01, a02), (a10, a11, a12), (a20, a21, a22)) 2 = (a02, a12, a22)"
  by (simp_all add: col_def)

lemma col_of_cols [simp]:
  "col (of_cols u v w) 0 = u" "col (of_cols u v w) 1 = v" "col (of_cols u v w) (Suc 0) = v"
  "col (of_cols u v w) 2 = w"
  by (simp_all add: of_cols_def col_def split: prod.splits)

lemma dot_cross_left: "dot u (cross u v) = 0"
  by (cases u, cases v) (simp add: dot_def cross_def algebra_simps)

lemma dot_cross_right: "dot v (cross u v) = 0"
  by (cases u, cases v) (simp add: dot_def cross_def algebra_simps)

lemma dot_commute: "dot u v = dot v u"
  by (cases u, cases v) (simp add: dot_def algebra_simps)

lemma lagrange: "dot (cross u v) (cross u v) = dot u u * dot v v - (dot u v)\<^sup>2"
  by (cases u, cases v) (simp add: dot_def cross_def power2_eq_square algebra_simps)

lemma triple_cross: "dot u (cross v (cross u v)) = dot (cross u v) (cross u v)"
  by (cases u, cases v) (simp add: dot_def cross_def power2_eq_square algebra_simps)

lemma dot_vscale_left: "dot (vscale u k) v = k * dot u v"
  by (cases u, cases v) (simp add: dot_def vscale_def algebra_simps)

lemma dot_vscale_right: "dot u (vscale v k) = k * dot u v"
  by (cases u, cases v) (simp add: dot_def vscale_def algebra_simps)

lemma cross_vscale: "cross (vscale u k) (vscale v l) = vscale (cross u v) (k * l)"
  by (cases u, cases v) (simp add: cross_def vscale_def algebra_simps)

lemma dot_vdiv: "dot (vdiv u k) (vdiv v l) = dot u v / (k * l)"
  by (cases u, cases v) (simp add: dot_def vdiv_def add_divide_distrib mult.commute)

lemma squaredNorm_pos: "v \<noteq> (0, 0, 0) \<Longrightarrow> squaredNorm v > 0"
proof (cases v)
  case (fields a b c)
  assume "v \<noteq> (0, 0, 0)"
  with fields have "a \<noteq> 0 \<or> b \<noteq> 0 \<or> c \<noteq> 0" by simp
  then have "a * a > 0 \<or> b * b > 0 \<or> c * c > 0"
    by (auto simp add: zero_less_mult_iff)
  moreover have "a * a \<ge> 0" "b * b \<ge> 0" "c * c \<ge> 0"
    by simp_all
  ultimately have "a * a + b * b + c * c > 0"
    by linarith
  with fields show ?thesis by (simp add: squaredNorm_def dot_def)
qed

lemma normalized_nonzero:
  "v \<noteq> (0, 0, 0) \<Longrightarrow> normalized v = vdiv v (norm3 v)"
  using squaredNorm_pos [of v] by (simp add: normalized_def norm3_def)

lemma norm3_sq: "norm3 v * norm3 v = dot v v"
proof -
  have "dot v v \<ge> 0"
    by (cases v) (simp add: dot_def)
  then show ?thesis
    by (simp add: norm3_def squaredNorm_def)
qed

lemma norm3_pos: "v \<noteq> (0, 0, 0) \<Longrightarrow> norm3 v > 0"
  using squaredNorm_pos [of v] by (simp add: norm3_def)

lemma squaredNorm_normalized:
  assumes "v \<noteq> (0, 0, 0)"
  shows "dot (normalized v) (normalized v) = 1"
proof -
  have "dot (normalized v) (normalized v) = dot v v / (norm3 v * norm3 v)"
    by (simp only: normalized_nonzero [OF assms] dot_vdiv)
  also have "\<dots> = dot v v / dot v v"
    by (simp only: norm3_sq)
  also have "\<dots> = 1"
    using squaredNorm_pos [OF assms] by (simp add: squaredNorm_def)
  finally show ?thesis .
qed

lemma dot_normalized:
  assumes "u \<noteq> (0, 0, 0)" "v \<noteq> (0, 0, 0)"
  shows "dot (normalized u) (normalized v) = dot u v / (norm3 u * norm3 v)"
  by (simp only: normalized_nonzero [OF assms(1)] normalized_nonzero [OF assms(2)] dot_vdiv)


lemma vscale_one: "vscale v 1 = v"
  by (cases v) (simp add: vscale_def)

lemma determinant_of_cols: "determinant (of_cols u v w) = dot u (cross v w)"
  by (simp add: determinant_def)

lemma mat_mul_rot_x_pi:
  "mat_mul (of_cols u v w) rot_x_pi = of_cols u (vscale v (- 1)) (vscale w (- 1))"
  by (cases u, cases v, cases w)
     (simp add: mat_mul_def of_cols_def rot_x_pi_def dot_def vscale_def)

lemma determinant_zero_col0: "col m 0 = (0, 0, 0) \<Longrightarrow> determinant m = 0"
  by (cases "cross (col m 1) (col m 2)") (simp add: determinant_def dot_def)

lemma determinant_zero_col1: "col m 1 = (0, 0, 0) \<Longrightarrow> determinant m = 0"
  by (cases "col m 0", cases "col m 2") (simp add: determinant_def dot_def cross_def)

lemma determinant_mat_mul: "determinant (mat_mul a b) = determinant a * determinant b"
proof -
  obtain a00 a01 a02 a10 a11 a12 a20 a21 a22
    where a: "a = ((a00, a01, a02), (a10, a11, a12), (a20, a21, a22))"
    by (metis prod_cases3)
  obtain b00 b01 b02 b10 b11 b12 b20 b21 b22
    where b: "b = ((b00, b01, b02), (b10, b11, b12), (b20, b21, b22))"
    by (metis prod_cases3)
  show ?thesis
    unfolding a b
    by (simp add: determinant_def mat_mul_def dot_def cross_def algebra_simps)
qed


lemma dot_self_nonneg: "dot v v \<ge> 0"
  by (cases v) (simp add: dot_def)

lemma norm3_eq_one_iff: "norm3 v = 1 \<longleftrightarrow> dot v v = 1"
  by (simp add: norm3_def squaredNorm_def)

lemma norm3_power2: "(norm3 v)\<^sup>2 = dot v v"
  using dot_self_nonneg [of v] by (simp add: norm3_def squaredNorm_def)

lemma cols_nonzero:
  assumes "determinant H \<noteq> 0" "determinant Pinv \<noteq> 0"
  shows "col (getPose_T H Pinv) 0 \<noteq> (0, 0, 0)" "col (getPose_T H Pinv) 1 \<noteq> (0, 0, 0)"
proof -
  have "determinant (getPose_T H Pinv) \<noteq> 0"
    using assms by (simp add: getPose_T_def determinant_mat_mul)
  then show "col (getPose_T H Pinv) 0 \<noteq> (0, 0, 0)" "col (getPose_T H Pinv) 1 \<noteq> (0, 0, 0)"
    using determinant_zero_col0 determinant_zero_col1 by blast+
qed

text \<open>The matrix \<open>R\<close> in one formula: the sign \<open>k\<close> is \<open>- 1\<close> for \<open>z_up\<close> and \<open>1\<close> otherwise.\<close>

lemma getPose_R_sign:
  "getPose_R H Pinv zup =
     of_cols (normalized (col (getPose_T H Pinv) 0))
       (vscale (normalized (col (getPose_T H Pinv) 1)) (if zup then - 1 else 1))
       (vscale (cross (normalized (col (getPose_T H Pinv) 0)) (normalized (col (getPose_T H Pinv) 1)))
          (if zup then - 1 else 1))"
  by (simp add: getPose_R_def Let_def vscale_one)

text \<open>
  Two unit vectors \<open>u\<close>, \<open>v\<close>, their cross product, and a common sign \<open>k\<close> on the last
  two columns.
\<close>

lemma frame_columns:
  fixes u v :: Vector3d and k :: real
  assumes u: "dot u u = 1" and v: "dot v v = 1" and k: "k * k = 1"
  defines "R \<equiv> of_cols u (vscale v k) (vscale (cross u v) k)"
  shows "norm3 (col R 0) = 1"
    and "norm3 (col R 1) = 1"
    and "dot (col R 0) (col R 2) = 0"
    and "dot (col R 1) (col R 2) = 0"
    and "dot (col R 0) (col R 1) = k * dot u v"
    and "dot (col R 2) (col R 2) = 1 - (dot u v)\<^sup>2"
    and "determinant R = 1 - (dot u v)\<^sup>2"
proof -
  show "norm3 (col R 0) = 1"
    by (simp add: R_def norm3_eq_one_iff u)
  show "norm3 (col R 1) = 1"
    by (simp add: R_def norm3_eq_one_iff dot_vscale_left dot_vscale_right v k)
  show "dot (col R 0) (col R 2) = 0"
    by (simp add: R_def dot_vscale_right dot_cross_left)
  show "dot (col R 1) (col R 2) = 0"
    by (simp add: R_def dot_vscale_left dot_vscale_right dot_cross_right)
  show "dot (col R 0) (col R 1) = k * dot u v"
    by (simp add: R_def dot_vscale_right)
  have "dot (col R 2) (col R 2) = (k * k) * dot (cross u v) (cross u v)"
    by (simp add: R_def dot_vscale_left dot_vscale_right)
  then show c2: "dot (col R 2) (col R 2) = 1 - (dot u v)\<^sup>2"
    by (simp add: k lagrange u v)
  have "determinant R = dot u (vscale (cross v (cross u v)) (k * k))"
    by (simp add: R_def determinant_of_cols cross_vscale)
  also have "\<dots> = dot (cross u v) (cross u v)"
    by (simp add: k vscale_one triple_cross)
  finally show "determinant R = 1 - (dot u v)\<^sup>2"
    by (simp add: lagrange u v)
qed

lemma getPose_R_columns:
  fixes H Pinv :: Mat3 and zup :: bool
  assumes a: "col (getPose_T H Pinv) 0 \<noteq> (0, 0, 0)" and b: "col (getPose_T H Pinv) 1 \<noteq> (0, 0, 0)"
  defines "R \<equiv> getPose_R H Pinv zup"
  defines "c \<equiv> dot (normalized (col (getPose_T H Pinv) 0)) (normalized (col (getPose_T H Pinv) 1))"
  shows "norm3 (col R 0) = 1"
    and "norm3 (col R 1) = 1"
    and "dot (col R 0) (col R 2) = 0"
    and "dot (col R 1) (col R 2) = 0"
    and "dot (col R 0) (col R 1) = (if zup then - 1 else 1) * c"
    and "dot (col R 2) (col R 2) = 1 - c\<^sup>2"
    and "determinant R = 1 - c\<^sup>2"
proof -
  note u = squaredNorm_normalized [OF a]
  note v = squaredNorm_normalized [OF b]
  have k: "(if zup then - 1 else 1) * (if zup then - 1 else (1::real)) = 1"
    by simp
  note f = frame_columns [OF u v k]
  show "norm3 (col R 0) = 1" "norm3 (col R 1) = 1" "dot (col R 0) (col R 2) = 0"
    "dot (col R 1) (col R 2) = 0" "dot (col R 0) (col R 1) = (if zup then - 1 else 1) * c"
    "dot (col R 2) (col R 2) = 1 - c\<^sup>2" "determinant R = 1 - c\<^sup>2"
    unfolding R_def c_def getPose_R_sign by (rule f)+
qed

lemma normalized_orthogonal_iff:
  assumes a: "a \<noteq> (0, 0, 0)" and b: "b \<noteq> (0, 0, 0)"
  shows "dot (normalized a) (normalized b) = 0 \<longleftrightarrow> dot a b = 0"
  using norm3_pos [OF a] norm3_pos [OF b] by (simp add: dot_normalized [OF a b])

lemma getPose_R_proper_iff:
  assumes a: "col (getPose_T H Pinv) 0 \<noteq> (0, 0, 0)" and b: "col (getPose_T H Pinv) 1 \<noteq> (0, 0, 0)"
  shows "proper_rotation_within 0 (getPose_R H Pinv zup)
     \<longleftrightarrow> dot (col (getPose_T H Pinv) 0) (col (getPose_T H Pinv) 1) = 0"
proof -
  define c where "c = dot (normalized (col (getPose_T H Pinv) 0)) (normalized (col (getPose_T H Pinv) 1))"
  note p = getPose_R_columns [OF a b, of zup, folded c_def]
  have "proper_rotation_within 0 (getPose_R H Pinv zup) \<longleftrightarrow> c = 0"
    unfolding proper_rotation_within_def p(1-5,7)
    by (simp add: norm3_eq_one_iff p(6))
  then show ?thesis
    by (simp only: c_def normalized_orthogonal_iff [OF a b])
qed


section \<open>Properties of getPose\<close>

text \<open>
  C1. The code divides the third column of \<open>T\<close> by the norm of column 0 alone (the
  average of that norm with itself), not by the average of the norms of columns 0 and
  1. With \<open>H = diag(1, 2, 1)\<close>, \<open>Pinv\<close> the identity and edge size 2 the code returns
  \<open>(0, 0, 1)\<close> where the stated formula gives \<open>(0, 0, 2/3)\<close>.
\<close>

theorem getPose_translation_col0_only:
  "translation (getPose quat H Pinv edge_size zup)
     = vscale (vdiv (col (getPose_T H Pinv) 2) (norm3 (col (getPose_T H Pinv) 0))) (edge_size / 2)
   \<and> translation (getPose quat H_stretch Identity 2 zup) = (0, 0, 1)
   \<and> spec_translation H_stretch Identity 2 = (0, 0, 2 / 3)"
proof -
  have T: "getPose_T H_stretch Identity = H_stretch"
    by (simp add: getPose_T_def mat_mul_def H_stretch_def Identity_def dot_def)
  have n0: "norm3 (col H_stretch 0) = 1" and n1: "norm3 (col H_stretch 1) = 2"
    by (simp_all add: H_stretch_def norm3_def squaredNorm_def dot_def)
  have c2: "col H_stretch 2 = (0, 0, 1)"
    by (simp add: H_stretch_def)
  have "translation (getPose quat H Pinv edge_size zup)
     = vscale (vdiv (col (getPose_T H Pinv) 2) (norm3 (col (getPose_T H Pinv) 0))) (edge_size / 2)"
    by (simp add: getPose_def getPose_tt_def Let_def)
  moreover have "translation (getPose quat H_stretch Identity 2 zup) = (0, 0, 1)"
    by (simp add: getPose_def getPose_tt_def Let_def T n0 c2 vdiv_def vscale_def)
  moreover have "spec_translation H_stretch Identity 2 = (0, 0, 2 / 3)"
    by (simp add: spec_translation_def Let_def T n0 n1 c2 vdiv_def vscale_def del: One_nat_def)
  ultimately show ?thesis by blast
qed

text \<open>
  C2, as stated, fails: \<open>H = ((1, 3, 0), (0, 4, 0), (0, 0, 1))\<close> is invertible, \<open>Pinv\<close>
  is the identity, and the columns 0 and 1 of \<open>R\<close> have the inner product \<open>3/5\<close>.
\<close>

theorem getPose_R_shear_not_orthonormal:
  "determinant H_shear \<noteq> 0 \<and> determinant Identity \<noteq> 0
   \<and> \<not> proper_rotation_within (1 / 1000000) (getPose_R H_shear Identity False)"
proof -
  have T: "getPose_T H_shear Identity = H_shear"
    by (simp add: getPose_T_def mat_mul_def H_shear_def Identity_def dot_def)
  have c0: "normalized (col H_shear 0) = (1, 0, 0)"
    by (simp add: H_shear_def normalized_def squaredNorm_def dot_def vdiv_def)
  have c1: "normalized (col H_shear 1) = (3 / 5, 4 / 5, 0)"
    by (simp add: H_shear_def normalized_def squaredNorm_def dot_def vdiv_def)
  have "dot (col (getPose_R H_shear Identity False) 0) (col (getPose_R H_shear Identity False) 1) = 3 / 5"
    by (simp add: getPose_R_sign T c0 c1 vscale_one del: One_nat_def) (simp add: dot_def)
  then have "\<not> proper_rotation_within (1 / 1000000) (getPose_R H_shear Identity False)"
    unfolding proper_rotation_within_def by simp
  moreover have "determinant H_shear \<noteq> 0 \<and> determinant Identity \<noteq> 0"
    by (simp add: determinant_def H_shear_def Identity_def dot_def cross_def)
  ultimately show ?thesis by blast
qed

text \<open>
  C2, amended. For every invertible homography \<open>H\<close> and invertible \<open>Pinv\<close>, over the
  reals: columns 0 and 1 of \<open>R\<close> have unit length and column 2 is orthogonal to both;
  the squared length of column 2 and the determinant of \<open>R\<close> both are one minus the
  square of the inner product of columns 0 and 1; and \<open>R\<close> is a proper orthonormal
  rotation exactly when the first two columns of \<open>T = Pinv * H\<close> are orthogonal. All of
  this holds with \<open>z_up\<close> set or not.
\<close>

theorem getPose_R_orthonormal_iff:
  assumes "determinant H \<noteq> 0" and "determinant Pinv \<noteq> 0"
  shows "norm3 (col (getPose_R H Pinv zup) 0) = 1
    \<and> norm3 (col (getPose_R H Pinv zup) 1) = 1
    \<and> dot (col (getPose_R H Pinv zup) 0) (col (getPose_R H Pinv zup) 2) = 0
    \<and> dot (col (getPose_R H Pinv zup) 1) (col (getPose_R H Pinv zup) 2) = 0
    \<and> (norm3 (col (getPose_R H Pinv zup) 2))\<^sup>2
        = 1 - (dot (col (getPose_R H Pinv zup) 0) (col (getPose_R H Pinv zup) 1))\<^sup>2
    \<and> determinant (getPose_R H Pinv zup)
        = 1 - (dot (col (getPose_R H Pinv zup) 0) (col (getPose_R H Pinv zup) 1))\<^sup>2
    \<and> (proper_rotation_within 0 (getPose_R H Pinv zup)
        \<longleftrightarrow> dot (col (getPose_T H Pinv) 0) (col (getPose_T H Pinv) 1) = 0)"
proof -
  note nz = cols_nonzero [OF assms]
  note p = getPose_R_columns [OF nz, of zup]
  have sq: "(dot (col (getPose_R H Pinv zup) 0) (col (getPose_R H Pinv zup) 1))\<^sup>2
      = (dot (normalized (col (getPose_T H Pinv) 0)) (normalized (col (getPose_T H Pinv) 1)))\<^sup>2"
    unfolding p(5) by (simp add: power2_eq_square)
  show ?thesis
    unfolding sq norm3_power2
    by (intro conjI p(1-4) p(6) p(7) getPose_R_proper_iff [OF nz])
qed

theorem getPose_R_orthonormal_iff_witness:
  "determinant H_stretch \<noteq> 0 \<and> determinant Identity \<noteq> 0
   \<and> proper_rotation_within 0 (getPose_R H_stretch Identity True)
   \<and> norm3 (col (getPose_R H_shear Identity False) 1) = 1
   \<and> determinant (getPose_R H_shear Identity False) = 16 / 25"
proof -
  have d: "determinant H_stretch \<noteq> 0" "determinant Identity \<noteq> 0" "determinant H_shear \<noteq> 0"
    by (simp_all add: determinant_def H_stretch_def H_shear_def Identity_def dot_def cross_def)
  have T: "getPose_T H_stretch Identity = H_stretch"
    by (simp add: getPose_T_def mat_mul_def H_stretch_def Identity_def dot_def)
  have o: "dot (col (getPose_T H_stretch Identity) 0) (col (getPose_T H_stretch Identity) 1) = 0"
    unfolding T by (simp add: H_stretch_def dot_def)
  have T': "getPose_T H_shear Identity = H_shear"
    by (simp add: getPose_T_def mat_mul_def H_shear_def Identity_def dot_def)
  have c0: "normalized (col H_shear 0) = (1, 0, 0)"
    by (simp add: H_shear_def normalized_def squaredNorm_def dot_def vdiv_def)
  have c1: "normalized (col H_shear 1) = (3 / 5, 4 / 5, 0)"
    by (simp add: H_shear_def normalized_def squaredNorm_def dot_def vdiv_def)
  have i: "dot (col (getPose_R H_shear Identity False) 0) (col (getPose_R H_shear Identity False) 1) = 3 / 5"
    by (simp add: getPose_R_sign T' c0 c1 vscale_one del: One_nat_def) (simp add: dot_def)
  from getPose_R_orthonormal_iff [OF d(1) d(2), of True] o
  have a: "proper_rotation_within 0 (getPose_R H_stretch Identity True)"
    by blast
  from getPose_R_orthonormal_iff [OF d(3) d(2), of False]
  have b: "norm3 (col (getPose_R H_shear Identity False) 1) = 1
     \<and> determinant (getPose_R H_shear Identity False) = 16 / 25"
    unfolding i by (simp add: power2_eq_square)
  from d a b show ?thesis by blast
qed

section \<open>Quaternions\<close>

lemma Mat3_of_qmul:
  "Mat3_of_Quaterniond (qmul p q) = mat_mul (Mat3_of_Quaterniond p) (Mat3_of_Quaterniond q)"
proof (cases p, cases q)
  fix a b c d e f g h
  assume p: "p = Quaterniond a b c d" and q: "q = Quaterniond e f g h"
  show ?thesis
    unfolding p q
    by (simp add: Mat3_of_Quaterniond_def qmul_def mat_mul_def dot_def) algebra
qed

lemma squaredNorm_qmul: "squaredNorm_q (qmul p q) = squaredNorm_q p * squaredNorm_q q"
proof (cases p, cases q)
  fix a b c d e f g h
  assume p: "p = Quaterniond a b c d" and q: "q = Quaterniond e f g h"
  show ?thesis
    unfolding p q
    by (simp add: squaredNorm_q_def qmul_def) algebra
qed

lemma Mat3_of_q_x_pi: "Mat3_of_Quaterniond q_x_pi = rot_x_pi"
  by (simp add: Mat3_of_Quaterniond_def q_x_pi_def rot_x_pi_def)

lemma squaredNorm_q_x_pi: "squaredNorm_q q_x_pi = 1"
  by (simp add: squaredNorm_q_def q_x_pi_def)

text \<open>Two unit quaternions with the same matrix are equal up to the sign.\<close>

lemma unit_quaternions_same_matrix:
  assumes np: "squaredNorm_q p = 1" and nq: "squaredNorm_q q = 1"
    and m: "Mat3_of_Quaterniond p = Mat3_of_Quaterniond q"
  shows "q = p \<or> q = qneg p"
proof -
  obtain a b c d where p: "p = Quaterniond a b c d" by (cases p)
  obtain e f g h where q: "q = Quaterniond e f g h" by (cases q)
  have n1: "a * a + b * b + c * c + d * d = 1" and n2: "e * e + f * f + g * g + h * h = 1"
    using np nq by (simp_all add: p q squaredNorm_q_def)
  have m00: "a * a + b * b - c * c - d * d = e * e + f * f - g * g - h * h"
    and m01: "2 * (b * c - a * d) = 2 * (f * g - e * h)"
    and m02: "2 * (b * d + a * c) = 2 * (f * h + e * g)"
    and m10: "2 * (b * c + a * d) = 2 * (f * g + e * h)"
    and m11: "a * a - b * b + c * c - d * d = e * e - f * f + g * g - h * h"
    and m12: "2 * (c * d - a * b) = 2 * (g * h - e * f)"
    and m20: "2 * (b * d - a * c) = 2 * (f * h - e * g)"
    and m21: "2 * (c * d + a * b) = 2 * (g * h + e * f)"
    and m22: "a * a - b * b - c * c + d * d = e * e - f * f - g * g + h * h"
    using m by (simp_all add: p q Mat3_of_Quaterniond_def)
  define k where "k = a * e + b * f + c * g + d * h"
  have kk: "k * k = 1"
    unfolding k_def using n1 n2 m00 m01 m02 m10 m11 m12 m20 m21 m22 by algebra
  have e: "e = k * a" and f: "f = k * b" and g: "g = k * c" and h: "h = k * d"
    unfolding k_def using n1 n2 m00 m01 m02 m10 m11 m12 m20 m21 m22 by algebra+
  from kk have "k = 1 \<or> k = - 1"
    by (simp add: square_eq_1_iff [symmetric] power2_eq_square)
  then show ?thesis
    using e f g h by (auto simp add: p q qneg_def)
qed

text \<open>
  The four branches of the conversion, for a matrix with orthonormal columns
  \<open>(u1, u2, u3)\<close>, \<open>(v1, v2, v3)\<close> and their cross product. In each branch one
  component \<open>r\<close> of the quaternion is half a square root, and the products of \<open>4 * r\<close>
  with the four components are entries of the matrix.
\<close>

lemma branch_w:
  fixes u1 u2 u3 v1 v2 v3 a b c d :: real
  assumes uu: "u1 * u1 + u2 * u2 + u3 * u3 = 1" and vv: "v1 * v1 + v2 * v2 + v3 * v3 = 1"
    and uv: "u1 * v1 + u2 * v2 + u3 * v3 = 0"
    and nz: "a \<noteq> 0"
    and fa: "4 * a * a = 1 + u1 + v2 + (u1 * v2 - u2 * v1)"
    and fb: "4 * a * b = v3 - (u3 * v1 - u1 * v3)"
    and fc: "4 * a * c = (u2 * v3 - u3 * v2) - u3"
    and fd: "4 * a * d = u2 - v1"
  shows "Mat3_of_Quaterniond (Quaterniond a b c d)
      = ((u1, v1, u2 * v3 - u3 * v2), (u2, v2, u3 * v1 - u1 * v3), (u3, v3, u1 * v2 - u2 * v1))
    \<and> squaredNorm_q (Quaterniond a b c d) = 1"
proof -
  have "16 * a * a * (a * a + b * b - c * c - d * d - u1) = 0"
    "16 * a * a * (2 * (b * c - a * d) - v1) = 0"
    "16 * a * a * (2 * (b * d + a * c) - (u2 * v3 - u3 * v2)) = 0"
    "16 * a * a * (2 * (b * c + a * d) - u2) = 0"
    "16 * a * a * (a * a - b * b + c * c - d * d - v2) = 0"
    "16 * a * a * (2 * (c * d - a * b) - (u3 * v1 - u1 * v3)) = 0"
    "16 * a * a * (2 * (b * d - a * c) - u3) = 0"
    "16 * a * a * (2 * (c * d + a * b) - v3) = 0"
    "16 * a * a * (a * a - b * b - c * c + d * d - (u1 * v2 - u2 * v1)) = 0"
    "16 * a * a * (a * a + b * b + c * c + d * d - 1) = 0"
    using uu vv uv fa fb fc fd by algebra+
  with nz show ?thesis
    by (simp add: Mat3_of_Quaterniond_def squaredNorm_q_def)
qed

lemma branch_x:
  fixes u1 u2 u3 v1 v2 v3 a b c d :: real
  assumes uu: "u1 * u1 + u2 * u2 + u3 * u3 = 1" and vv: "v1 * v1 + v2 * v2 + v3 * v3 = 1"
    and uv: "u1 * v1 + u2 * v2 + u3 * v3 = 0"
    and nz: "b \<noteq> 0"
    and fb: "4 * b * b = u1 - v2 - (u1 * v2 - u2 * v1) + 1"
    and fa: "4 * b * a = v3 - (u3 * v1 - u1 * v3)"
    and fc: "4 * b * c = u2 + v1"
    and fd: "4 * b * d = u3 + (u2 * v3 - u3 * v2)"
  shows "Mat3_of_Quaterniond (Quaterniond a b c d)
      = ((u1, v1, u2 * v3 - u3 * v2), (u2, v2, u3 * v1 - u1 * v3), (u3, v3, u1 * v2 - u2 * v1))
    \<and> squaredNorm_q (Quaterniond a b c d) = 1"
proof -
  have "16 * b * b * (a * a + b * b - c * c - d * d - u1) = 0"
    "16 * b * b * (2 * (b * c - a * d) - v1) = 0"
    "16 * b * b * (2 * (b * d + a * c) - (u2 * v3 - u3 * v2)) = 0"
    "16 * b * b * (2 * (b * c + a * d) - u2) = 0"
    "16 * b * b * (a * a - b * b + c * c - d * d - v2) = 0"
    "16 * b * b * (2 * (c * d - a * b) - (u3 * v1 - u1 * v3)) = 0"
    "16 * b * b * (2 * (b * d - a * c) - u3) = 0"
    "16 * b * b * (2 * (c * d + a * b) - v3) = 0"
    "16 * b * b * (a * a - b * b - c * c + d * d - (u1 * v2 - u2 * v1)) = 0"
    "16 * b * b * (a * a + b * b + c * c + d * d - 1) = 0"
    using uu vv uv fa fb fc fd by algebra+
  with nz show ?thesis
    by (simp add: Mat3_of_Quaterniond_def squaredNorm_q_def)
qed

lemma branch_y:
  fixes u1 u2 u3 v1 v2 v3 a b c d :: real
  assumes uu: "u1 * u1 + u2 * u2 + u3 * u3 = 1" and vv: "v1 * v1 + v2 * v2 + v3 * v3 = 1"
    and uv: "u1 * v1 + u2 * v2 + u3 * v3 = 0"
    and nz: "c \<noteq> 0"
    and fc: "4 * c * c = v2 - (u1 * v2 - u2 * v1) - u1 + 1"
    and fa: "4 * c * a = (u2 * v3 - u3 * v2) - u3"
    and fb: "4 * c * b = v1 + u2"
    and fd: "4 * c * d = v3 + (u3 * v1 - u1 * v3)"
  shows "Mat3_of_Quaterniond (Quaterniond a b c d)
      = ((u1, v1, u2 * v3 - u3 * v2), (u2, v2, u3 * v1 - u1 * v3), (u3, v3, u1 * v2 - u2 * v1))
    \<and> squaredNorm_q (Quaterniond a b c d) = 1"
proof -
  have "16 * c * c * (a * a + b * b - c * c - d * d - u1) = 0"
    "16 * c * c * (2 * (b * c - a * d) - v1) = 0"
    "16 * c * c * (2 * (b * d + a * c) - (u2 * v3 - u3 * v2)) = 0"
    "16 * c * c * (2 * (b * c + a * d) - u2) = 0"
    "16 * c * c * (a * a - b * b + c * c - d * d - v2) = 0"
    "16 * c * c * (2 * (c * d - a * b) - (u3 * v1 - u1 * v3)) = 0"
    "16 * c * c * (2 * (b * d - a * c) - u3) = 0"
    "16 * c * c * (2 * (c * d + a * b) - v3) = 0"
    "16 * c * c * (a * a - b * b - c * c + d * d - (u1 * v2 - u2 * v1)) = 0"
    "16 * c * c * (a * a + b * b + c * c + d * d - 1) = 0"
    using uu vv uv fa fb fc fd by algebra+
  with nz show ?thesis
    by (simp add: Mat3_of_Quaterniond_def squaredNorm_q_def)
qed

lemma branch_z:
  fixes u1 u2 u3 v1 v2 v3 a b c d :: real
  assumes uu: "u1 * u1 + u2 * u2 + u3 * u3 = 1" and vv: "v1 * v1 + v2 * v2 + v3 * v3 = 1"
    and uv: "u1 * v1 + u2 * v2 + u3 * v3 = 0"
    and nz: "d \<noteq> 0"
    and fd: "4 * d * d = (u1 * v2 - u2 * v1) - u1 - v2 + 1"
    and fa: "4 * d * a = u2 - v1"
    and fb: "4 * d * b = (u2 * v3 - u3 * v2) + u3"
    and fc: "4 * d * c = (u3 * v1 - u1 * v3) + v3"
  shows "Mat3_of_Quaterniond (Quaterniond a b c d)
      = ((u1, v1, u2 * v3 - u3 * v2), (u2, v2, u3 * v1 - u1 * v3), (u3, v3, u1 * v2 - u2 * v1))
    \<and> squaredNorm_q (Quaterniond a b c d) = 1"
proof -
  have "16 * d * d * (a * a + b * b - c * c - d * d - u1) = 0"
    "16 * d * d * (2 * (b * c - a * d) - v1) = 0"
    "16 * d * d * (2 * (b * d + a * c) - (u2 * v3 - u3 * v2)) = 0"
    "16 * d * d * (2 * (b * c + a * d) - u2) = 0"
    "16 * d * d * (a * a - b * b + c * c - d * d - v2) = 0"
    "16 * d * d * (2 * (c * d - a * b) - (u3 * v1 - u1 * v3)) = 0"
    "16 * d * d * (2 * (b * d - a * c) - u3) = 0"
    "16 * d * d * (2 * (c * d + a * b) - v3) = 0"
    "16 * d * d * (a * a - b * b - c * c + d * d - (u1 * v2 - u2 * v1)) = 0"
    "16 * d * d * (a * a + b * b + c * c + d * d - 1) = 0"
    using uu vv uv fa fb fc fd by algebra+
  with nz show ?thesis
    by (simp add: Mat3_of_Quaterniond_def squaredNorm_q_def)
qed

lemma half_sqrt:
  fixes D :: real
  assumes "D > 0"
  shows "1 / 2 * sqrt D \<noteq> 0"
    and "4 * (1 / 2 * sqrt D) * (1 / 2 * sqrt D) = D"
    and "4 * (1 / 2 * sqrt D) * (p * (1 / 2 / sqrt D)) = p"
  using assms by simp_all

lemma Quaterniond_of_Mat3_orthonormal:
  assumes u: "dot u u = 1" and v: "dot v v = 1" and uv: "dot u v = 0"
  shows "Mat3_of_Quaterniond (Quaterniond_of_Mat3 (of_cols u v (cross u v))) = of_cols u v (cross u v)
    \<and> squaredNorm_q (Quaterniond_of_Mat3 (of_cols u v (cross u v))) = 1"
proof -
  obtain u1 u2 u3 where cu: "u = (u1, u2, u3)" by (metis prod_cases3)
  obtain v1 v2 v3 where cv: "v = (v1, v2, v3)" by (metis prod_cases3)
  define w1 where "w1 = u2 * v3 - u3 * v2"
  define w2 where "w2 = u3 * v1 - u1 * v3"
  define w3 where "w3 = u1 * v2 - u2 * v1"
  have R: "of_cols u v (cross u v) = ((u1, v1, w1), (u2, v2, w2), (u3, v3, w3))"
    by (simp add: cu cv of_cols_def cross_def w1_def w2_def w3_def)
  have uu: "u1 * u1 + u2 * u2 + u3 * u3 = 1" and vv: "v1 * v1 + v2 * v2 + v3 * v3 = 1"
    and uv': "u1 * v1 + u2 * v2 + u3 * v3 = 0"
    using u v uv by (simp_all add: cu cv dot_def)
  consider (w) "u1 + v2 + w3 > 0"
    | (x) "\<not> u1 + v2 + w3 > 0" "\<not> v2 > u1" "\<not> w3 > u1"
    | (y) "\<not> u1 + v2 + w3 > 0" "v2 > u1" "\<not> w3 > v2"
    | (z) "\<not> u1 + v2 + w3 > 0" "\<not> (\<not> v2 > u1 \<and> \<not> w3 > u1)" "\<not> (v2 > u1 \<and> \<not> w3 > v2)"
    by blast
  then show ?thesis
  proof cases
    case w
    define D where "D = u1 + v2 + w3 + 1"
    have D: "D > 0" using w by (simp add: D_def)
    have q: "Quaterniond_of_Mat3 ((u1, v1, w1), (u2, v2, w2), (u3, v3, w3))
        = Quaterniond (1 / 2 * sqrt D) ((v3 - w2) * (1 / 2 / sqrt D))
            ((w1 - u3) * (1 / 2 / sqrt D)) ((u2 - v1) * (1 / 2 / sqrt D))"
      using w by (simp add: Quaterniond_of_Mat3_def Let_def D_def)
    have f: "4 * (1 / 2 * sqrt D) * (1 / 2 * sqrt D) = 1 + u1 + v2 + (u1 * v2 - u2 * v1)"
      unfolding half_sqrt(2) [OF D] by (simp add: D_def w3_def)
    show ?thesis
      unfolding R q
      using branch_w [OF uu vv uv' half_sqrt(1) [OF D] f half_sqrt(3) [OF D] half_sqrt(3) [OF D]
          half_sqrt(3) [OF D]]
      by (simp only: w1_def w2_def w3_def)
  next
    case x
    define D where "D = u1 - v2 - w3 + 1"
    have D: "D > 0" using x by (simp add: D_def)
    have q: "Quaterniond_of_Mat3 ((u1, v1, w1), (u2, v2, w2), (u3, v3, w3))
        = Quaterniond ((v3 - w2) * (1 / 2 / sqrt D)) (1 / 2 * sqrt D)
            ((u2 + v1) * (1 / 2 / sqrt D)) ((u3 + w1) * (1 / 2 / sqrt D))"
      using x by (simp add: Quaterniond_of_Mat3_def Let_def D_def)
    have f: "4 * (1 / 2 * sqrt D) * (1 / 2 * sqrt D) = u1 - v2 - (u1 * v2 - u2 * v1) + 1"
      unfolding half_sqrt(2) [OF D] by (simp add: D_def w3_def)
    show ?thesis
      unfolding R q
      using branch_x [OF uu vv uv' half_sqrt(1) [OF D] f half_sqrt(3) [OF D] half_sqrt(3) [OF D]
          half_sqrt(3) [OF D]]
      by (simp only: w1_def w2_def w3_def)
  next
    case y
    define D where "D = v2 - w3 - u1 + 1"
    have D: "D > 0" using y by (simp add: D_def)
    have q: "Quaterniond_of_Mat3 ((u1, v1, w1), (u2, v2, w2), (u3, v3, w3))
        = Quaterniond ((w1 - u3) * (1 / 2 / sqrt D)) ((v1 + u2) * (1 / 2 / sqrt D))
            (1 / 2 * sqrt D) ((v3 + w2) * (1 / 2 / sqrt D))"
      using y by (simp add: Quaterniond_of_Mat3_def Let_def D_def)
    have f: "4 * (1 / 2 * sqrt D) * (1 / 2 * sqrt D) = v2 - (u1 * v2 - u2 * v1) - u1 + 1"
      unfolding half_sqrt(2) [OF D] by (simp add: D_def w3_def)
    show ?thesis
      unfolding R q
      using branch_y [OF uu vv uv' half_sqrt(1) [OF D] f half_sqrt(3) [OF D] half_sqrt(3) [OF D]
          half_sqrt(3) [OF D]]
      by (simp only: w1_def w2_def w3_def)
  next
    case z
    define D where "D = w3 - u1 - v2 + 1"
    have D: "D > 0" using z by (auto simp add: D_def)
    have q: "Quaterniond_of_Mat3 ((u1, v1, w1), (u2, v2, w2), (u3, v3, w3))
        = Quaterniond ((u2 - v1) * (1 / 2 / sqrt D)) ((w1 + u3) * (1 / 2 / sqrt D))
            ((w2 + v3) * (1 / 2 / sqrt D)) (1 / 2 * sqrt D)"
    proof -
      have "\<not> (\<not> v2 > u1 \<and> \<not> w3 > u1)" "\<not> (v2 > u1 \<and> \<not> w3 > v2)" "\<not> u1 + v2 + w3 > 0"
        using z by blast+
      then show ?thesis
        unfolding Quaterniond_of_Mat3_def Let_def D_def
        by (simp only: prod.case if_False)
    qed
    have f: "4 * (1 / 2 * sqrt D) * (1 / 2 * sqrt D) = (u1 * v2 - u2 * v1) - u1 - v2 + 1"
      unfolding half_sqrt(2) [OF D] by (simp add: D_def w3_def)
    show ?thesis
      unfolding R q
      using branch_z [OF uu vv uv' half_sqrt(1) [OF D] f half_sqrt(3) [OF D] half_sqrt(3) [OF D]
          half_sqrt(3) [OF D]]
      by (simp only: w1_def w2_def w3_def)
  qed
qed

section \<open>The z-up convention\<close>

lemma cross_vscale_right: "cross u (vscale v k) = vscale (cross u v) k"
  by (cases u, cases v) (simp add: cross_def vscale_def algebra_simps)

lemma getPose_quaternions_half_turn:
  assumes a: "col (getPose_T H Pinv) 0 \<noteq> (0, 0, 0)" and b: "col (getPose_T H Pinv) 1 \<noteq> (0, 0, 0)"
    and o: "dot (col (getPose_T H Pinv) 0) (col (getPose_T H Pinv) 1) = 0"
  shows "Quaterniond_of_Mat3 (getPose_R H Pinv True)
        = qmul (Quaterniond_of_Mat3 (getPose_R H Pinv False)) q_x_pi
     \<or> Quaterniond_of_Mat3 (getPose_R H Pinv True)
        = qneg (qmul (Quaterniond_of_Mat3 (getPose_R H Pinv False)) q_x_pi)"
proof -
  define u where "u = normalized (col (getPose_T H Pinv) 0)"
  define v where "v = normalized (col (getPose_T H Pinv) 1)"
  define v' where "v' = vscale v (- 1)"
  have uu: "dot u u = 1" and vv: "dot v v = 1"
    unfolding u_def v_def by (rule squaredNorm_normalized [OF a], rule squaredNorm_normalized [OF b])
  have uv: "dot u v = 0"
    unfolding u_def v_def by (simp only: normalized_orthogonal_iff [OF a b] o)
  have vv': "dot v' v' = 1" and uv': "dot u v' = 0"
    by (simp_all add: v'_def dot_vscale_left dot_vscale_right vv uv)
  have Rf: "getPose_R H Pinv False = of_cols u v (cross u v)"
    by (simp add: getPose_R_def Let_def u_def v_def)
  have Rt: "getPose_R H Pinv True = of_cols u v' (cross u v')"
    by (simp add: getPose_R_def Let_def u_def v_def v'_def cross_vscale_right)
  have Rm: "getPose_R H Pinv True = mat_mul (getPose_R H Pinv False) rot_x_pi"
    by (simp add: getPose_R_def Let_def mat_mul_rot_x_pi)
  note f = Quaterniond_of_Mat3_orthonormal [OF uu vv uv, folded Rf]
  note t = Quaterniond_of_Mat3_orthonormal [OF uu vv' uv', folded Rt]
  define p where "p = qmul (Quaterniond_of_Mat3 (getPose_R H Pinv False)) q_x_pi"
  have np: "squaredNorm_q p = 1"
    by (simp add: p_def squaredNorm_qmul squaredNorm_q_x_pi f)
  have mp: "Mat3_of_Quaterniond p = Mat3_of_Quaterniond (Quaterniond_of_Mat3 (getPose_R H Pinv True))"
    by (simp add: p_def Mat3_of_qmul Mat3_of_q_x_pi f t Rm [symmetric])
  from unit_quaternions_same_matrix [OF np _ mp] t
  show ?thesis
    unfolding p_def by blast
qed

lemma T_skew: "getPose_T H_skew Identity = H_skew"
  by (simp add: getPose_T_def mat_mul_def H_skew_def Identity_def dot_def)

lemma R_skew_False:
  "getPose_R H_skew Identity False = ((1, 24 / 25, 0), (0, 7 / 25, 0), (0, 0, 7 / 25))"
proof -
  have c0: "normalized (col H_skew 0) = (1, 0, 0)"
    by (simp add: H_skew_def normalized_def squaredNorm_def dot_def vdiv_def)
  have c1: "normalized (col H_skew 1) = (24 / 25, 7 / 25, 0)"
    by (simp add: H_skew_def normalized_def squaredNorm_def dot_def vdiv_def)
  show ?thesis
    by (simp add: getPose_R_def Let_def T_skew c0 c1 del: One_nat_def)
       (simp add: cross_def of_cols_def)
qed

lemma R_skew_True:
  "getPose_R H_skew Identity True = ((1, - (24 / 25), 0), (0, - (7 / 25), 0), (0, 0, - (7 / 25)))"
proof -
  have c0: "normalized (col H_skew 0) = (1, 0, 0)"
    by (simp add: H_skew_def normalized_def squaredNorm_def dot_def vdiv_def)
  have c1: "normalized (col H_skew 1) = (24 / 25, 7 / 25, 0)"
    by (simp add: H_skew_def normalized_def squaredNorm_def dot_def vdiv_def)
  show ?thesis
    by (simp add: getPose_R_def Let_def T_skew c0 c1 del: One_nat_def)
       (simp add: cross_def of_cols_def vscale_def)
qed

text \<open>
  C8, as stated, fails for the rotations that are handed out: with
  \<open>H = ((1, 24, 0), (0, 7, 0), (0, 0, 1))\<close> and \<open>Pinv\<close> the identity the first two columns
  of \<open>T\<close> are not orthogonal, the quaternion for \<open>z_up\<close> false is \<open>(4/5, 0, 0, -3/10)\<close>,
  the one for \<open>z_up\<close> true is \<open>(3/5, 0, 0, 2/5)\<close>, and the latter is no multiple of the
  former turned by a half turn about its x-axis.
\<close>

theorem getPose_skew_quaternions_not_half_turn:
  "determinant H_skew \<noteq> 0 \<and> determinant Identity \<noteq> 0
   \<and> rotation (getPose Quaterniond_of_Mat3 H_skew Identity 1 False) = Quaterniond (4 / 5) 0 0 (- (3 / 10))
   \<and> rotation (getPose Quaterniond_of_Mat3 H_skew Identity 1 True) = Quaterniond (3 / 5) 0 0 (2 / 5)
   \<and> qmul (Quaterniond (4 / 5) 0 0 (- (3 / 10))) q_x_pi = Quaterniond 0 (4 / 5) (- (3 / 10)) 0
   \<and> \<not> parallel (rotation (getPose Quaterniond_of_Mat3 H_skew Identity 1 True))
         (qmul (rotation (getPose Quaterniond_of_Mat3 H_skew Identity 1 False)) q_x_pi)"
proof -
  have d: "determinant H_skew \<noteq> 0 \<and> determinant Identity \<noteq> 0"
    by (simp add: determinant_def H_skew_def Identity_def dot_def cross_def)
  have s1: "sqrt (64 / 25) = 8 / 5"
    by (rule real_sqrt_unique) (simp_all add: power2_eq_square)
  have s2: "sqrt (36 / 25) = 6 / 5"
    by (rule real_sqrt_unique) (simp_all add: power2_eq_square)
  have f: "rotation (getPose Quaterniond_of_Mat3 H_skew Identity 1 False) = Quaterniond (4 / 5) 0 0 (- (3 / 10))"
    by (simp add: getPose_def R_skew_False Quaterniond_of_Mat3_def Let_def s1)
  have t: "rotation (getPose Quaterniond_of_Mat3 H_skew Identity 1 True) = Quaterniond (3 / 5) 0 0 (2 / 5)"
    by (simp add: getPose_def R_skew_True Quaterniond_of_Mat3_def Let_def s2)
  have m: "qmul (Quaterniond (4 / 5) 0 0 (- (3 / 10))) q_x_pi = Quaterniond 0 (4 / 5) (- (3 / 10)) 0"
    by (simp add: qmul_def q_x_pi_def)
  have p: "\<not> parallel (Quaterniond (3 / 5) 0 0 (2 / 5)) (Quaterniond 0 (4 / 5) (- (3 / 10)) 0)"
    by (simp add: parallel_def)
  from d f t m p show ?thesis by simp
qed

text \<open>
  C8, amended. For every \<open>H\<close>, \<open>Pinv\<close> and edge size the two translations are equal, and
  the matrix \<open>R\<close> for \<open>z_up\<close> true is the matrix for \<open>z_up\<close> false (normalized columns 0
  and 1 of \<open>T\<close> and their cross product) multiplied on the right by the rotation by
  \<open>pi\<close> about the x-axis, that is with column 0 kept and columns 1 and 2 negated; the
  rotation handed out is the conversion of that matrix. When the first two columns of
  \<open>T\<close> are non-zero and orthogonal, the quaternion Eigen's conversion gives for \<open>z_up\<close>
  true is, up to the sign, the one for \<open>z_up\<close> false times the quaternion of the half
  turn about x.
\<close>

theorem getPose_z_up_half_turn:
  "rot_x_pi = ((1, 0, 0), (0, cos pi, - sin pi), (0, sin pi, cos pi))
   \<and> Mat3_of_Quaterniond q_x_pi = rot_x_pi
   \<and> getPose_R H Pinv False
       = of_cols (normalized (col (mat_mul Pinv H) 0)) (normalized (col (mat_mul Pinv H) 1))
           (cross (normalized (col (mat_mul Pinv H) 0)) (normalized (col (mat_mul Pinv H) 1)))
   \<and> getPose_R H Pinv True = mat_mul (getPose_R H Pinv False) rot_x_pi
   \<and> col (getPose_R H Pinv True) 0 = col (getPose_R H Pinv False) 0
   \<and> col (getPose_R H Pinv True) 1 = vscale (col (getPose_R H Pinv False) 1) (- 1)
   \<and> col (getPose_R H Pinv True) 2 = vscale (col (getPose_R H Pinv False) 2) (- 1)
   \<and> rotation (getPose quat H Pinv edge_size True)
       = quat (mat_mul (getPose_R H Pinv False) rot_x_pi)
   \<and> rotation (getPose quat H Pinv edge_size False) = quat (getPose_R H Pinv False)
   \<and> translation (getPose quat H Pinv edge_size True)
       = translation (getPose quat H Pinv edge_size False)
   \<and> (col (mat_mul Pinv H) 0 \<noteq> (0, 0, 0) \<and> col (mat_mul Pinv H) 1 \<noteq> (0, 0, 0)
        \<and> dot (col (mat_mul Pinv H) 0) (col (mat_mul Pinv H) 1) = 0
      \<longrightarrow> rotation (getPose Quaterniond_of_Mat3 H Pinv edge_size True)
            = qmul (rotation (getPose Quaterniond_of_Mat3 H Pinv edge_size False)) q_x_pi
          \<or> rotation (getPose Quaterniond_of_Mat3 H Pinv edge_size True)
            = qneg (qmul (rotation (getPose Quaterniond_of_Mat3 H Pinv edge_size False)) q_x_pi))"
proof -
  have h: "rot_x_pi = ((1, 0, 0), (0, cos pi, - sin pi), (0, sin pi, cos pi))"
    by (simp add: rot_x_pi_def)
  have d: "getPose_R H Pinv False
       = of_cols (normalized (col (mat_mul Pinv H) 0)) (normalized (col (mat_mul Pinv H) 1))
           (cross (normalized (col (mat_mul Pinv H) 0)) (normalized (col (mat_mul Pinv H) 1)))"
    by (simp add: getPose_R_def getPose_T_def Let_def)
  have m: "getPose_R H Pinv True = mat_mul (getPose_R H Pinv False) rot_x_pi"
    by (simp add: getPose_R_def Let_def mat_mul_rot_x_pi)
  have c: "col (getPose_R H Pinv True) 0 = col (getPose_R H Pinv False) 0"
    "col (getPose_R H Pinv True) 1 = vscale (col (getPose_R H Pinv False) 1) (- 1)"
    "col (getPose_R H Pinv True) 2 = vscale (col (getPose_R H Pinv False) 2) (- 1)"
    by (simp_all add: getPose_R_def Let_def)
  have r: "rotation (getPose quat H Pinv edge_size True)
       = quat (mat_mul (getPose_R H Pinv False) rot_x_pi)"
    by (simp add: getPose_def m)
  have t: "translation (getPose quat H Pinv edge_size True)
       = translation (getPose quat H Pinv edge_size False)"
    "rotation (getPose quat H Pinv edge_size False) = quat (getPose_R H Pinv False)"
    by (simp_all add: getPose_def)
  have q: "col (mat_mul Pinv H) 0 \<noteq> (0, 0, 0) \<and> col (mat_mul Pinv H) 1 \<noteq> (0, 0, 0)
        \<and> dot (col (mat_mul Pinv H) 0) (col (mat_mul Pinv H) 1) = 0
      \<longrightarrow> rotation (getPose Quaterniond_of_Mat3 H Pinv edge_size True)
            = qmul (rotation (getPose Quaterniond_of_Mat3 H Pinv edge_size False)) q_x_pi
          \<or> rotation (getPose Quaterniond_of_Mat3 H Pinv edge_size True)
            = qneg (qmul (rotation (getPose Quaterniond_of_Mat3 H Pinv edge_size False)) q_x_pi)"
    using getPose_quaternions_half_turn [of H Pinv]
    by (simp add: getPose_def getPose_T_def del: One_nat_def)
  from h Mat3_of_q_x_pi d m c r t q show ?thesis by blast
qed

theorem getPose_z_up_half_turn_witness:
  "col (mat_mul Identity H_stretch) 0 \<noteq> (0, 0, 0) \<and> col (mat_mul Identity H_stretch) 1 \<noteq> (0, 0, 0)
   \<and> dot (col (mat_mul Identity H_stretch) 0) (col (mat_mul Identity H_stretch) 1) = 0
   \<and> rotation (getPose Quaterniond_of_Mat3 H_stretch Identity 2 False) = Quaterniond 1 0 0 0
   \<and> rotation (getPose Quaterniond_of_Mat3 H_stretch Identity 2 True) = Quaterniond 0 1 0 0
   \<and> (rotation (getPose Quaterniond_of_Mat3 H_stretch Identity 2 True)
        = qmul (rotation (getPose Quaterniond_of_Mat3 H_stretch Identity 2 False)) q_x_pi
      \<or> rotation (getPose Quaterniond_of_Mat3 H_stretch Identity 2 True)
        = qneg (qmul (rotation (getPose Quaterniond_of_Mat3 H_stretch Identity 2 False)) q_x_pi))"
proof -
  have T: "mat_mul Identity H_stretch = H_stretch"
    by (simp add: mat_mul_def H_stretch_def Identity_def dot_def)
  have h: "col (mat_mul Identity H_stretch) 0 \<noteq> (0, 0, 0) \<and> col (mat_mul Identity H_stretch) 1 \<noteq> (0, 0, 0)
   \<and> dot (col (mat_mul Identity H_stretch) 0) (col (mat_mul Identity H_stretch) 1) = 0"
    unfolding T by (simp add: H_stretch_def dot_def)
  have c0: "normalized (col H_stretch 0) = (1, 0, 0)"
    by (simp add: H_stretch_def normalized_def squaredNorm_def dot_def vdiv_def)
  have c1: "normalized (col H_stretch 1) = (0, 1, 0)"
    by (simp add: H_stretch_def normalized_def squaredNorm_def dot_def vdiv_def)
  have Rf: "getPose_R H_stretch Identity False = ((1, 0, 0), (0, 1, 0), (0, 0, 1))"
    by (simp add: getPose_R_def getPose_T_def Let_def T c0 c1 del: One_nat_def)
       (simp add: cross_def of_cols_def)
  have Rt: "getPose_R H_stretch Identity True = ((1, 0, 0), (0, - 1, 0), (0, 0, - 1))"
    by (simp add: getPose_R_def getPose_T_def Let_def T c0 c1 del: One_nat_def)
       (simp add: cross_def of_cols_def vscale_def)
  have f: "rotation (getPose Quaterniond_of_Mat3 H_stretch Identity 2 False) = Quaterniond 1 0 0 0"
    by (simp add: getPose_def Rf Quaterniond_of_Mat3_def Let_def)
  have t: "rotation (getPose Quaterniond_of_Mat3 H_stretch Identity 2 True) = Quaterniond 0 1 0 0"
    by (simp add: getPose_def Rt Quaterniond_of_Mat3_def Let_def)
  from getPose_z_up_half_turn [where H = H_stretch and Pinv = Identity
      and quat = Quaterniond_of_Mat3 and edge_size = 2] h
  have "rotation (getPose Quaterniond_of_Mat3 H_stretch Identity 2 True)
        = qmul (rotation (getPose Quaterniond_of_Mat3 H_stretch Identity 2 False)) q_x_pi
      \<or> rotation (getPose Quaterniond_of_Mat3 H_stretch Identity 2 True)
        = qneg (qmul (rotation (getPose Quaterniond_of_Mat3 H_stretch Identity 2 False)) q_x_pi)"
    by blast
  with h f t show ?thesis by blast
qed

end
